theory Spec2Isabelle
  imports Complex_Main "HOL-Library.Multiset" "HOL-Library.Char_ord" "HOL-Library.List_Lexorder"
    "HOL-Library.Product_Lexorder" "HOL-Library.Log_Nat"
begin

section \<open>JavaScript values\<close>

text \<open>
  The handlers of the backend and the scanner scripts work on JSON values. A number is
  NaN or a rational (the value a double denotes; the infinities and the sign of zero are
  left out). An object is an association list in key order; objects that come out of
  JSON.parse have no repeated key.
\<close>

datatype jsnum = NaN | Fin rat

datatype jsval =
    JUndefined
  | JNull
  | JBool bool
  | JNum jsnum
  | JStr string
  | JArr "jsval list"
  | JObj "(string \<times> jsval) list"

text \<open>Truthiness, as used by \<open>!x\<close>, \<open>x ? a : b\<close>, \<open>a || b\<close> and \<open>a && b\<close>.\<close>

fun truthy :: "jsval \<Rightarrow> bool" where
  "truthy JUndefined = False"
| "truthy JNull = False"
| "truthy (JBool b) = b"
| "truthy (JNum NaN) = False"
| "truthy (JNum (Fin r)) = (r \<noteq> 0)"
| "truthy (JStr s) = (s \<noteq> [])"
| "truthy (JArr xs) = True"
| "truthy (JObj kvs) = True"

definition js_or :: "jsval \<Rightarrow> jsval \<Rightarrow> jsval" where
  "js_or a b = (if truthy a then a else b)"

text \<open>
  \<open>Number(v)\<close> and \<open>String(v)\<close>. What the language does on strings, arrays and objects
  (parsing a numeric literal, joining an array, printing a number) is the built-in
  conversion; it is a parameter of every function below that converts, and nothing is
  assumed about it.
\<close>

record js_builtins =
  to_number :: "jsval \<Rightarrow> jsnum"
  to_string :: "jsval \<Rightarrow> string"

fun js_Number :: "'a js_builtins_scheme \<Rightarrow> jsval \<Rightarrow> jsnum" where
  "js_Number bi JUndefined = NaN"
| "js_Number bi JNull = Fin 0"
| "js_Number bi (JBool b) = Fin (if b then 1 else 0)"
| "js_Number bi (JNum n) = n"
| "js_Number bi v = to_number bi v"

fun js_String :: "'a js_builtins_scheme \<Rightarrow> jsval \<Rightarrow> string" where
  "js_String bi (JStr s) = s"
| "js_String bi v = to_string bi v"

text \<open>
  Property access \<open>v.k\<close> for the keys the code reads (none of them is a built-in
  property of strings, numbers or arrays): a TypeError (\<open>None\<close>) on \<open>null\<close> and
  \<open>undefined\<close>, \<open>undefined\<close> where the key is absent.
\<close>

fun get_prop :: "jsval \<Rightarrow> string \<Rightarrow> jsval option" where
  "get_prop JUndefined k = None"
| "get_prop JNull k = None"
| "get_prop (JObj kvs) k = Some (case map_of kvs k of None \<Rightarrow> JUndefined | Some v \<Rightarrow> v)"
| "get_prop v k = Some JUndefined"

text \<open>The same on a value known not to be \<open>null\<close> or \<open>undefined\<close> (a destructured object).\<close>

definition field :: "jsval \<Rightarrow> string \<Rightarrow> jsval" where
  "field v k = (case get_prop v k of None \<Rightarrow> JUndefined | Some x \<Rightarrow> x)"

text \<open>A destructuring default \<open>{ k = d }\<close> applies only when the property is \<open>undefined\<close>.\<close>

definition dflt :: "jsval \<Rightarrow> jsval \<Rightarrow> jsval" where
  "dflt v d = (if v = JUndefined then d else v)"

section \<open>Double arithmetic\<close>

text \<open>
  The scripts compute with IEEE doubles. \<open>to_double\<close> rounds a rational to the nearest
  number with a 53 bit significand, ties to even: \<open>binade x\<close> is the exponent \<open>e\<close> with
  \<open>2^e \<le> x < 2^(e+1)\<close>, read off the bit lengths of numerator and denominator, and the
  spacing of the doubles there is \<open>2^(e-52)\<close>. Subnormal numbers and overflow are left
  out. Each arithmetic operation of a script is the exact operation followed by
  \<open>to_double\<close>.
\<close>

definition binade :: "rat \<Rightarrow> int" where
  "binade x = (case quotient_of x of (a, b) \<Rightarrow>
     (let k = bitlen a - bitlen b in if 2 powi k \<le> x then k else k - 1))"

definition round_even :: "rat \<Rightarrow> int" where
  "round_even z =
     (let f = \<lfloor>z\<rfloor>; r = z - of_int f
      in if r < 1 / 2 then f else if 1 / 2 < r then f + 1 else if even f then f else f + 1)"

definition to_double :: "rat \<Rightarrow> rat" where
  "to_double x =
     (if x = 0 then 0
      else (let q = 2 powi (binade \<bar>x\<bar> - 52)
            in (if x < 0 then - 1 else 1) * of_int (round_even (\<bar>x\<bar> / q)) * q))"

definition js_minus :: "rat \<Rightarrow> rat \<Rightarrow> rat" where
  "js_minus a b = to_double (a - b)"

definition js_times :: "rat \<Rightarrow> rat \<Rightarrow> rat" where
  "js_times a b = to_double (a * b)"

definition js_divide :: "rat \<Rightarrow> rat \<Rightarrow> rat" where
  "js_divide a b = to_double (a / b)"

text \<open>
  \<open>x.toFixed(3)\<close> writes the decimal with three places nearest to the exact value of the
  double \<open>x\<close>, the larger one on a tie (the sign is set aside first); the unary plus reads
  it back as the nearest double. \<open>Math.round\<close> gives the nearest integer, the larger one
  on a tie, and is exact.
\<close>

definition toFixed3 :: "rat \<Rightarrow> rat" where
  "toFixed3 x = (if x < 0 then - 1 else 1) * of_int \<lfloor>\<bar>x\<bar> * 1000 + 1 / 2\<rfloor> / 1000"

definition js_toFixed3 :: "rat \<Rightarrow> rat" where
  "js_toFixed3 x = to_double (toFixed3 x)"

definition js_Math_round :: "rat \<Rightarrow> rat" where
  "js_Math_round x = of_int \<lfloor>x + 1 / 2\<rfloor>"

section \<open>The attendance table and the HTTP responses\<close>

text \<open>
  The table \<open>attendance\<close> is created by \<open>ensureTables\<close> with \<open>student_id INT NOT NULL\<close>
  and \<open>date DATE NOT NULL\<close>. It is the list of its rows in insertion order, and a row
  holds what the columns store, not what the INSERT bound: an integer and a calendar
  date (written \<open>YYYY-MM-DD\<close>) in these two columns. How MySQL converts is taken from its
  reference manual: a number bound to an integer column is rounded to the nearest
  integer, halves away from zero; an integer column equals a bound number when the two
  are the same number; a valid date literal \<open>YYYY-MM-DD\<close> is stored, and compared, as
  that date. What the database makes of any other bound value (a number out of the INT
  range, a string in an integer column, a date with a time of day, and every value bound
  to one of the other columns) is a parameter of the request, like the built-in
  conversions. A query that the database refuses throws, which the handlers catch.
\<close>

record att_row =
  col_student_id :: int
  col_date :: string
  col_status :: jsval
  col_method :: jsval
  col_confidence :: jsval
  col_marked_by :: jsval

type_synonym store = "att_row list"

record response =
  code :: nat
  body :: jsval

definition ok :: "response \<Rightarrow> bool" where
  "ok r = (200 \<le> code r \<and> code r \<le> 299)"

text \<open>
  What a handler reads besides the request body: the server's clock as
  \<open>new Date().toISOString().slice(0,10)\<close>, the built-in conversions, whether the
  database executes the SELECT and the INSERT of this request, and what the database
  does with the values this development does not fix: the integer and the date it
  stores for them (\<open>sql_int\<close>, \<open>sql_date\<close>), whether a stored integer or date equals
  them in a WHERE clause (\<open>sql_int_match\<close>, \<open>sql_date_match\<close>), and what the column of
  a given name stores (\<open>sql_store\<close>).
\<close>

record server_env = js_builtins +
  today :: string
  select_ok :: bool
  insert_ok :: bool
  db_message :: string
  sql_int :: "jsval \<Rightarrow> int"
  sql_int_match :: "int \<Rightarrow> jsval \<Rightarrow> bool"
  sql_date :: "jsval \<Rightarrow> string"
  sql_date_match :: "string \<Rightarrow> jsval \<Rightarrow> bool"
  sql_store :: "string \<Rightarrow> jsval \<Rightarrow> jsval"

definition round_half_away :: "rat \<Rightarrow> int" where
  "round_half_away r = (if 0 \<le> r then \<lfloor>r + 1 / 2\<rfloor> else - \<lfloor>- r + 1 / 2\<rfloor>)"

definition int_range :: "int \<Rightarrow> bool" where
  "int_range k = (- 2147483648 \<le> k \<and> k \<le> 2147483647)"

definition int_column :: "server_env \<Rightarrow> jsval \<Rightarrow> int" where
  "int_column env v =
     (case v of
        JNum (Fin r) \<Rightarrow> if int_range (round_half_away r) then round_half_away r else sql_int env v
      | _ \<Rightarrow> sql_int env v)"

definition int_equals :: "server_env \<Rightarrow> int \<Rightarrow> jsval \<Rightarrow> bool" where
  "int_equals env k v =
     (case v of JNum (Fin r) \<Rightarrow> of_int k = r | _ \<Rightarrow> sql_int_match env k v)"

text \<open>A valid date literal: four digits, two digits, two digits, a day that the month has.\<close>

definition is_digit :: "char \<Rightarrow> bool" where
  "is_digit c = (48 \<le> (of_char c :: nat) \<and> (of_char c :: nat) \<le> 57)"

definition num_of :: "string \<Rightarrow> nat" where
  "num_of cs = foldl (\<lambda>n c. 10 * n + (of_char c - 48)) 0 cs"

definition days_in_month :: "nat \<Rightarrow> nat \<Rightarrow> nat" where
  "days_in_month y m =
     (if m = 2 then (if y mod 4 = 0 \<and> (y mod 100 \<noteq> 0 \<or> y mod 400 = 0) then 29 else 28)
      else if m = 4 \<or> m = 6 \<or> m = 9 \<or> m = 11 then 30 else 31)"

definition canonical_date :: "string \<Rightarrow> bool" where
  "canonical_date s =
     (length s = 10 \<and> s ! 4 = CHR ''-'' \<and> s ! 7 = CHR ''-'' \<and>
      list_all is_digit (take 4 s @ take 2 (drop 5 s) @ drop 8 s) \<and>
      (let y = num_of (take 4 s); m = num_of (take 2 (drop 5 s)); d = num_of (drop 8 s)
       in 1000 \<le> y \<and> 1 \<le> m \<and> m \<le> 12 \<and> 1 \<le> d \<and> d \<le> days_in_month y m))"

definition date_column :: "server_env \<Rightarrow> jsval \<Rightarrow> string" where
  "date_column env v =
     (case v of JStr s \<Rightarrow> if canonical_date s then s else sql_date env v | _ \<Rightarrow> sql_date env v)"

definition date_equals :: "server_env \<Rightarrow> string \<Rightarrow> jsval \<Rightarrow> bool" where
  "date_equals env stored v =
     (case v of
        JStr s \<Rightarrow> if canonical_date s then stored = s else sql_date_match env stored v
      | _ \<Rightarrow> sql_date_match env stored v)"

definition user_id :: jsval where
  "user_id = JNum (Fin 2)"

section \<open>POST /api/v1/attendance/mark\<close>

text \<open>
  The handlers of this and the next section are those of backend/index.js in the copy
  headed "improved and more robust for embeddings and attendance": the one whose mark
  route answers \<open>invalid_payload\<close> and \<open>already_marked\<close>. The column \<open>created_at\<close>,
  filled by the database clock, is not part of a row here.
\<close>

definition invalid_payload :: response where
  "invalid_payload = \<lparr>code = 400, body = JObj [(''error'', JStr ''invalid_payload''),
     (''message'', JStr ''student_id required (numeric)'')]\<rparr>"

definition already_marked :: response where
  "already_marked = \<lparr>code = 409, body = JObj [(''error'', JStr ''already_marked''),
     (''message'', JStr ''Attendance already marked for this student on this date'')]\<rparr>"

definition server_error :: "server_env \<Rightarrow> response" where
  "server_error env = \<lparr>code = 500, body = JObj [(''error'', JStr ''server_error''),
     (''message'', JStr (db_message env))]\<rparr>"

definition mark_success :: "jsval \<Rightarrow> jsval \<Rightarrow> response" where
  "mark_success student_id date = \<lparr>code = 200, body = JObj [(''success'', JBool True),
     (''student_id'', student_id), (''date'', date)]\<rparr>"

text \<open>The normalisation of \<open>student_id\<close>: \<open>student_id ? Number(student_id) : null\<close>, then NaN to null.\<close>

definition normalize_student_id :: "server_env \<Rightarrow> jsval \<Rightarrow> jsval" where
  "normalize_student_id env v =
     (let student_id = (if truthy v then JNum (js_Number env v) else JNull)
      in if student_id = JNum NaN then JNull else student_id)"

text \<open>\<open>SELECT id FROM attendance WHERE student_id = ? AND date = ? LIMIT 1\<close>.\<close>

definition existing_rows :: "server_env \<Rightarrow> store \<Rightarrow> jsval \<Rightarrow> jsval \<Rightarrow> att_row list" where
  "existing_rows env st student_id date =
     take 1 (filter (\<lambda>r. int_equals env (col_student_id r) student_id \<and>
                            date_equals env (col_date r) date) st)"

definition attendance_mark :: "server_env \<Rightarrow> jsval \<Rightarrow> store \<Rightarrow> response \<times> store" where
  "attendance_mark env req_body st =
     (let payload = js_or req_body (JObj []);
          student_id = normalize_student_id env (field payload ''student_id'');
          date = js_or (field payload ''date'') (JStr (today env));
          status0 = dflt (field payload ''status'') (JStr ''present'');
          method0 = dflt (field payload ''method'') (JStr ''face'');
          confidence = dflt (field payload ''confidence'') JNull
      in if \<not> truthy student_id then (invalid_payload, st)
         else
           let status = (if js_String env status0 \<in> set [''present'', ''absent'', ''late'']
                         then status0 else JStr ''present'');
               method = JStr (take 50 (js_String env (js_or method0 (JStr ''face''))))
           in if \<not> select_ok env then (server_error env, st)
              else if existing_rows env st student_id date \<noteq> [] then (already_marked, st)
              else if \<not> insert_ok env then (server_error env, st)
              else (mark_success student_id date,
                    st @ [\<lparr>col_student_id = int_column env student_id,
                           col_date = date_column env date,
                           col_status = sql_store env ''status'' status,
                           col_method = sql_store env ''method'' method,
                           col_confidence = sql_store env ''confidence'' confidence,
                           col_marked_by = sql_store env ''marked_by'' (js_or user_id JNull)\<rparr>]))"


definition row_key :: "att_row \<Rightarrow> int \<times> string" where
  "row_key r = (col_student_id r, col_date r)"

text \<open>
  The requests whose arguments have the types of the data model: the student id the
  handler derives is an integer of the INT range, and the date sent (or, none being
  sent, the day of the server) is a valid date literal. A request the handler rejects
  for its student id counts among them.
\<close>

definition is_int_id :: "jsval \<Rightarrow> bool" where
  "is_int_id v = (case v of JNum (Fin r) \<Rightarrow> r = of_int \<lfloor>r\<rfloor> \<and> int_range \<lfloor>r\<rfloor> | _ \<Rightarrow> False)"

definition is_date :: "jsval \<Rightarrow> bool" where
  "is_date v = (case v of JStr s \<Rightarrow> canonical_date s | _ \<Rightarrow> False)"



section \<open>POST /api/v1/attendance/sync\<close>

definition no_records :: response where
  "no_records = \<lparr>code = 400, body = JObj [(''error'', JStr ''no_records'')]\<rparr>"

definition sync_server_error :: response where
  "sync_server_error = \<lparr>code = 500, body = JObj [(''error'', JStr ''server_error'')]\<rparr>"

definition sync_success :: "nat \<Rightarrow> response" where
  "sync_success n = \<lparr>code = 200, body = JObj [(''success'', JBool True),
     (''inserted'', JNum (Fin (of_nat n)))]\<rparr>"

text \<open>
  One element of \<open>vals\<close>: \<open>[r.student_id, r.date || today, r.status || 'present',
  r.method || 'manual', r.confidence || null, req.user.id]\<close>. Reading a property of a
  \<open>null\<close> element throws.
\<close>

definition sync_values :: "server_env \<Rightarrow> jsval \<Rightarrow> att_row" where
  "sync_values env r =
     \<lparr>col_student_id = int_column env (field r ''student_id''),
      col_date = date_column env (js_or (field r ''date'') (JStr (today env))),
      col_status = sql_store env ''status'' (js_or (field r ''status'') (JStr ''present'')),
      col_method = sql_store env ''method'' (js_or (field r ''method'') (JStr ''manual'')),
      col_confidence = sql_store env ''confidence'' (js_or (field r ''confidence'') JNull),
      col_marked_by = sql_store env ''marked_by'' user_id\<rparr>"

definition sync_row :: "server_env \<Rightarrow> jsval \<Rightarrow> att_row option" where
  "sync_row env r =
     (case get_prop r ''student_id'' of None \<Rightarrow> None | Some student_id \<Rightarrow> Some (sync_values env r))"

definition as_array :: "jsval \<Rightarrow> jsval list" where
  "as_array v = (case v of JArr xs \<Rightarrow> xs | _ \<Rightarrow> [])"

definition attendance_sync :: "server_env \<Rightarrow> jsval \<Rightarrow> store \<Rightarrow> response \<times> store" where
  "attendance_sync env req_body st =
     (case get_prop req_body ''records'' of
        None \<Rightarrow> (sync_server_error, st)
      | Some recs \<Rightarrow>
          (let records = js_or (js_or recs req_body) (JArr []);
               arr = as_array records
           in if length arr = 0 then (no_records, st)
              else (case those (map (sync_row env) arr) of
                      None \<Rightarrow> (sync_server_error, st)
                    | Some vals \<Rightarrow>
                        (if \<not> insert_ok env then (sync_server_error, st)
                         else (sync_success (length vals), st @ vals)))))"

text \<open>
  The records this handler finds in a request, read off the request alone: the array
  under the key \<open>records\<close> or, for a body that is itself an array, the body.
\<close>

definition submitted_records :: "jsval \<Rightarrow> jsval list" where
  "submitted_records b =
     (case b of
        JObj kvs \<Rightarrow> (case map_of kvs ''records'' of Some (JArr xs) \<Rightarrow> xs | _ \<Rightarrow> [])
      | JArr xs \<Rightarrow> xs
      | _ \<Rightarrow> [])"

section \<open>The minimal backend\<close>

text \<open>
  The repository holds a second copy of backend/index.js, headed "minimal endpoints for
  attendance module", with the same routes. Its mark handler inserts without looking
  for an existing row, and its error bodies differ.
\<close>

definition minimal_error :: response where
  "minimal_error = \<lparr>code = 500, body = JObj [(''error'', JStr ''server error'')]\<rparr>"

definition minimal_no_records :: response where
  "minimal_no_records = \<lparr>code = 400, body = JObj [(''error'', JStr ''no records'')]\<rparr>"

definition attendance_mark_minimal :: "server_env \<Rightarrow> jsval \<Rightarrow> store \<Rightarrow> response \<times> store" where
  "attendance_mark_minimal env req_body st =
     (case get_prop req_body ''student_id'' of
        None \<Rightarrow> (minimal_error, st)
      | Some student_id \<Rightarrow>
          (let date = field req_body ''date'';
               status = dflt (field req_body ''status'') (JStr ''present'');
               method = dflt (field req_body ''method'') (JStr ''face_scan'');
               confidence = dflt (field req_body ''confidence'') JNull
           in if \<not> truthy student_id
              then (\<lparr>code = 400, body = JObj [(''error'', JStr ''student_id required'')]\<rparr>, st)
              else
                (let d = js_or date (JStr (today env))
                 in if \<not> insert_ok env then (minimal_error, st)
                    else (\<lparr>code = 200, body = JObj [(''success'', JBool True)]\<rparr>,
                          st @ [\<lparr>col_student_id = int_column env student_id,
                                 col_date = date_column env d,
                                 col_status = sql_store env ''status'' status,
                                 col_method = sql_store env ''method'' method,
                                 col_confidence = sql_store env ''confidence'' confidence,
                                 col_marked_by = sql_store env ''marked_by'' user_id\<rparr>]))))"

definition is_array :: "jsval \<Rightarrow> bool" where
  "is_array v = (case v of JArr xs \<Rightarrow> True | _ \<Rightarrow> False)"

definition attendance_sync_minimal :: "server_env \<Rightarrow> jsval \<Rightarrow> store \<Rightarrow> response \<times> store" where
  "attendance_sync_minimal env req_body st =
     (case get_prop req_body ''records'' of
        None \<Rightarrow> (minimal_error, st)
      | Some records \<Rightarrow>
          (if \<not> is_array records \<or> length (as_array records) = 0
           then (minimal_no_records, st)
           else (case those (map (sync_row env) (as_array records)) of
                   None \<Rightarrow> (minimal_error, st)
                 | Some vals \<Rightarrow>
                     (if \<not> insert_ok env then (minimal_error, st)
                      else (sync_success (length vals), st @ vals)))))"

text \<open>The array under the key \<open>records\<close> of a request, empty where there is none.\<close>

definition records_array :: "jsval \<Rightarrow> jsval list" where
  "records_array b =
     (case b of
        JObj kvs \<Rightarrow> (case map_of kvs ''records'' of Some (JArr xs) \<Rightarrow> xs | _ \<Rightarrow> [])
      | _ \<Rightarrow> [])"

section \<open>The scanner: debounce, direct mark and the localStorage queue\<close>

text \<open>
  attendance_app/scanner.js in its two copies that mark one match at a time: the
  "robust scanner" and its patched successor. They share \<open>queueAttendance\<close>,
  \<open>syncOfflineQueue\<close> and \<open>markAttendanceForLabel\<close>; the patched
  \<open>markAttendanceForLabel\<close> also notes the student in \<open>sessionMarked\<close> when the
  response is ok.
\<close>

text \<open>
  \<open>fetch\<close> either rejects (the server cannot be reached) or resolves with a response.
  The endpoint a script posts to is a parameter: a function from the request body and
  the state behind the network to the outcome and the new state.
\<close>

datatype fetch_result = Rejected | Resolved response

type_synonym 's endpoint = "jsval \<Rightarrow> 's \<Rightarrow> fetch_result \<times> 's"

definition online :: "(jsval \<Rightarrow> 's \<Rightarrow> response \<times> 's) \<Rightarrow> 's endpoint" where
  "online handler b s = (case handler b s of (r, s') \<Rightarrow> (Resolved r, s'))"

definition unreachable :: "'s endpoint" where
  "unreachable b s = (Rejected, s)"

text \<open>
  The clock readings of one call: \<open>Date.now()\<close> in milliseconds,
  \<open>new Date().toISOString().slice(0,10)\<close> and \<open>new Date().toISOString()\<close>.
\<close>

record client_env = js_builtins +
  now :: int
  iso_date :: string
  iso_stamp :: string

text \<open>
  An object literal: the entries in order, a repeated key keeping its first position
  and taking the later value (as \<open>{ student_id: studentId, ...payload, synced: false }\<close> does).
\<close>

fun obj_put :: "(string \<times> jsval) list \<Rightarrow> string \<Rightarrow> jsval \<Rightarrow> (string \<times> jsval) list" where
  "obj_put [] k v = [(k, v)]"
| "obj_put ((k', v') # kvs) k v = (if k' = k then (k', v) # kvs else (k', v') # obj_put kvs k v)"

definition obj_lit :: "(string \<times> jsval) list \<Rightarrow> jsval" where
  "obj_lit es = JObj (foldl (\<lambda>kvs (k, v). obj_put kvs k v) [] es)"

text \<open>
  The module state of the scanner: \<open>recentMarks\<close> (label to timestamp),
  \<open>labelToStudentId\<close> (a Map), and the array stored under the localStorage key
  \<open>offline_attendance\<close>. \<open>sessionMarked\<close>, a Set in insertion order, is kept by the
  patched copy of the script only; the other copy never touches it.

  \<open>recentMarks\<close> is a plain object, \<open>{}\<close>, and the map below holds its own
  properties. Under the key \<open>__proto__\<close> such an object has none: an assignment of
  a number there is dropped by the inherited setter, and a read gives the prototype
  object, which is truthy and with which \<open>now - recentMarks[label]\<close> is NaN. The other
  inherited names (\<open>constructor\<close>, \<open>toString\<close>, ...) read as functions until the label is
  written, with the same NaN, and as the written number afterwards, which is what the
  map gives. The queue holds what \<open>queueAttendance\<close> stored, JSON values that the trip
  through \<open>JSON.stringify\<close> and \<open>JSON.parse\<close> gives back unchanged.
\<close>

record scanner =
  recentMarks :: "string \<Rightarrow> int option"
  labelToStudentId :: "string \<Rightarrow> jsval option"
  offline_attendance :: "jsval list"
  sessionMarked :: "jsnum list"

definition set_add :: "'a \<Rightarrow> 'a list \<Rightarrow> 'a list" where
  "set_add x xs = (if x \<in> set xs then xs else xs @ [x])"

definition map_get :: "(string \<Rightarrow> jsval option) \<Rightarrow> string \<Rightarrow> jsval" where
  "map_get m k = (case m k of None \<Rightarrow> JUndefined | Some v \<Rightarrow> v)"

definition queueAttendance :: "jsval \<Rightarrow> scanner \<Rightarrow> scanner" where
  "queueAttendance item c = c\<lparr>offline_attendance := offline_attendance c @ [item]\<rparr>"

text \<open>
  The guard \<open>recentMarks[label] && (now - recentMarks[label] < 45*1000)\<close> and the
  assignment \<open>recentMarks[label] = now\<close>.
\<close>

definition debounced :: "scanner \<Rightarrow> string \<Rightarrow> int \<Rightarrow> bool" where
  "debounced c label t =
     (if label = ''__proto__'' then False
      else (case recentMarks c label of
              None \<Rightarrow> False
            | Some t0 \<Rightarrow> t0 \<noteq> 0 \<and> t - t0 < 45 * 1000))"

definition record_mark :: "string \<Rightarrow> int \<Rightarrow> scanner \<Rightarrow> scanner" where
  "record_mark label t c =
     (if label = ''__proto__'' then c else c\<lparr>recentMarks := (recentMarks c)(label \<mapsto> t)\<rparr>)"

text \<open>
  The label of a match is a string, so the second lookup, under \<open>String(label)\<close>, reads
  the same key as the first.
\<close>

definition resolve_student :: "scanner \<Rightarrow> string \<Rightarrow> jsval" where
  "resolve_student c label =
     (let studentId = map_get (labelToStudentId c) label
      in if \<not> truthy studentId then map_get (labelToStudentId c) label else studentId)"

definition mark_payload :: "client_env \<Rightarrow> jsval \<Rightarrow> rat \<Rightarrow> (string \<times> jsval) list" where
  "mark_payload env studentId distance =
     [(''student_id'', js_or studentId JNull),
      (''date'', JStr (iso_date env)),
      (''timestamp'', JStr (iso_stamp env)),
      (''status'', JStr ''present''),
      (''method'', JStr ''face''),
      (''confidence'', JNum (Fin (js_toFixed3 (js_minus 1 distance))))]"

definition unresolved_item :: "client_env \<Rightarrow> string \<Rightarrow> jsval \<Rightarrow> rat \<Rightarrow> jsval" where
  "unresolved_item env label studentId distance =
     obj_lit ((''roll_number'', JStr label) # mark_payload env studentId distance
              @ [(''synced'', JBool False)])"

definition fallback_item :: "client_env \<Rightarrow> jsval \<Rightarrow> rat \<Rightarrow> jsval" where
  "fallback_item env studentId distance =
     obj_lit ((''student_id'', studentId) # mark_payload env studentId distance
              @ [(''synced'', JBool False)])"

definition markAttendanceForLabel ::
  "client_env \<Rightarrow> 's endpoint \<Rightarrow> string \<Rightarrow> rat \<Rightarrow> scanner \<times> 's \<Rightarrow> scanner \<times> 's" where
  "markAttendanceForLabel env post label distance cs =
     (case cs of (c, s) \<Rightarrow>
        if debounced c label (now env) then (c, s)
        else
          (let c1 = record_mark label (now env) c;
               studentId = resolve_student c1 label;
               payload = mark_payload env studentId distance
           in if \<not> truthy studentId
              then (queueAttendance (unresolved_item env label studentId distance) c1, s)
              else (case post (JObj payload) s of
                      (Rejected, s') \<Rightarrow>
                        (queueAttendance (fallback_item env studentId distance) c1, s')
                    | (Resolved resp, s') \<Rightarrow>
                        (if ok resp then (c1, s')
                         else (queueAttendance (fallback_item env studentId distance) c1, s')))))"

definition markAttendanceForLabel_patched ::
  "client_env \<Rightarrow> 's endpoint \<Rightarrow> string \<Rightarrow> rat \<Rightarrow> scanner \<times> 's \<Rightarrow> scanner \<times> 's" where
  "markAttendanceForLabel_patched env post label distance cs =
     (case cs of (c, s) \<Rightarrow>
        if debounced c label (now env) then (c, s)
        else
          (let c1 = record_mark label (now env) c;
               studentId = resolve_student c1 label;
               payload = mark_payload env studentId distance
           in if \<not> truthy studentId
              then (queueAttendance (unresolved_item env label studentId distance) c1, s)
              else (case post (JObj payload) s of
                      (Rejected, s') \<Rightarrow>
                        (queueAttendance (fallback_item env studentId distance) c1, s')
                    | (Resolved resp, s') \<Rightarrow>
                        (if ok resp
                         then (c1\<lparr>sessionMarked :=
                                    set_add (js_Number env studentId) (sessionMarked c1)\<rparr>, s')
                         else (queueAttendance (fallback_item env studentId distance) c1, s')))))"

text \<open>
  The function is async. From its call to its first \<open>await\<close>, the fetch of the mark
  request, it runs without interruption; what follows the \<open>await\<close> runs when the
  outcome of the fetch is there, on the state of that moment, and other detections are
  handled in between. \<open>mark_start\<close> is the first part: the call is over (the guard
  held it back, or the label had no student id and the record is queued), or a request
  for the resolved student id is on its way. \<open>mark_resume\<close> and \<open>mark_resume_patched\<close>
  are the second part in the two copies.
\<close>

datatype started = Finished scanner | Awaiting scanner jsval

definition mark_start :: "client_env \<Rightarrow> string \<Rightarrow> rat \<Rightarrow> scanner \<Rightarrow> started" where
  "mark_start env label distance c =
     (if debounced c label (now env) then Finished c
      else
        (let c1 = record_mark label (now env) c;
             studentId = resolve_student c1 label
         in if \<not> truthy studentId
            then Finished (queueAttendance (unresolved_item env label studentId distance) c1)
            else Awaiting c1 studentId))"

definition mark_resume :: "client_env \<Rightarrow> jsval \<Rightarrow> rat \<Rightarrow> fetch_result \<Rightarrow> scanner \<Rightarrow> scanner" where
  "mark_resume env studentId distance outcome c =
     (case outcome of
        Rejected \<Rightarrow> queueAttendance (fallback_item env studentId distance) c
      | Resolved resp \<Rightarrow>
          (if ok resp then c else queueAttendance (fallback_item env studentId distance) c))"

definition mark_resume_patched ::
  "client_env \<Rightarrow> jsval \<Rightarrow> rat \<Rightarrow> fetch_result \<Rightarrow> scanner \<Rightarrow> scanner" where
  "mark_resume_patched env studentId distance outcome c =
     (case outcome of
        Rejected \<Rightarrow> queueAttendance (fallback_item env studentId distance) c
      | Resolved resp \<Rightarrow>
          (if ok resp
           then c\<lparr>sessionMarked := set_add (js_Number env studentId) (sessionMarked c)\<rparr>
           else queueAttendance (fallback_item env studentId distance) c))"

text \<open>
  What a call that gets past the guard can be seen to do: it posts the mark request (the
  state behind the network is the one the endpoint returns for the payload) or, for a
  label without a student id, it queues the record that carries the label.
\<close>

definition emitted ::
  "client_env \<Rightarrow> 's endpoint \<Rightarrow> string \<Rightarrow> rat \<Rightarrow> scanner \<times> 's \<Rightarrow> scanner \<times> 's \<Rightarrow> bool" where
  "emitted env post label distance before after =
     (let studentId = resolve_student (fst before) label
      in if truthy studentId
         then snd after = snd (post (JObj (mark_payload env studentId distance)) (snd before))
         else offline_attendance (fst after) =
                offline_attendance (fst before) @ [unresolved_item env label studentId distance])"

text \<open>\<open>syncOfflineQueue\<close>: post the whole queue, clear it when the response is ok.\<close>

datatype sync_outcome = Nothing_queued | Synced jsval | Sync_failed

definition syncOfflineQueue ::
  "'s endpoint \<Rightarrow> scanner \<times> 's \<Rightarrow> sync_outcome \<times> scanner \<times> 's" where
  "syncOfflineQueue post cs =
     (case cs of (c, s) \<Rightarrow>
        (let q = offline_attendance c
         in if length q = 0 then (Nothing_queued, c, s)
            else (case post (JObj [(''records'', JArr q)]) s of
                    (Rejected, s') \<Rightarrow> (Sync_failed, c, s')
                  | (Resolved resp, s') \<Rightarrow>
                      (if \<not> ok resp then (Sync_failed, c, s')
                       else (Synced (body resp), c\<lparr>offline_attendance := []\<rparr>, s')))))"

text \<open>The submit button of the patched copy: the session's manual marks, sent as one batch.\<close>

definition manual_records :: "client_env \<Rightarrow> jsnum list \<Rightarrow> jsval list" where
  "manual_records env ids =
     map (\<lambda>i. JObj [(''student_id'', JNum i), (''date'', JStr (iso_date env)),
                     (''status'', JStr ''present''), (''method'', JStr ''manual''),
                     (''confidence'', JNull)]) ids"

definition submitBtn_click ::
  "client_env \<Rightarrow> 's endpoint \<Rightarrow> scanner \<times> 's \<Rightarrow> scanner \<times> 's" where
  "submitBtn_click env post cs =
     (case cs of (c, s) \<Rightarrow>
        if length (sessionMarked c) = 0 then (c, s)
        else (case post (JObj [(''records'', JArr (manual_records env (sessionMarked c)))]) s of
                (Rejected, s') \<Rightarrow> (c, s')
              | (Resolved resp, s') \<Rightarrow>
                  (if ok resp then (c\<lparr>sessionMarked := []\<rparr>, s') else (c, s'))))"

section \<open>The batching scanner and the queue behind window.srmDB\<close>

text \<open>
  The batching copy of the scanner keeps its queue behind \<open>window.srmDB\<close>: the
  IndexedDB wrapper of db.js when that script is loaded, the in-memory \<open>fakeDB\<close>
  otherwise. \<open>add\<close> takes the clock reading used for a missing timestamp and may
  reject (\<open>None\<close>).
\<close>

record 'd srm_db =
  db_add :: "string \<Rightarrow> jsval \<Rightarrow> 'd \<Rightarrow> 'd option"
  db_getAll :: "'d \<Rightarrow> jsval list"
  db_clear :: "'d \<Rightarrow> 'd"

definition fakeDB :: "(jsval list) srm_db" where
  "fakeDB = \<lparr>db_add = (\<lambda>stamp r q. Some (q @ [r])),
             db_getAll = (\<lambda>q. q),
             db_clear = (\<lambda>q. [])\<rparr>"

text \<open>
  The object store of db.js has the key path \<open>timestamp\<close>. Its content is modelled as
  the list of (key, record) pairs; strings and numbers are the keys modelled (numbers
  sort before strings), and \<open>add\<close> fails on any other key and on a key already stored.
  \<open>getAll\<close> returns the records in key order.
\<close>

definition valid_key :: "jsval \<Rightarrow> bool" where
  "valid_key v = (case v of JNum (Fin r) \<Rightarrow> True | JStr k \<Rightarrow> True | _ \<Rightarrow> False)"

definition key_rank :: "jsval \<Rightarrow> nat \<times> rat \<times> string" where
  "key_rank v = (case v of JNum (Fin r) \<Rightarrow> (0, r, []) | JStr k \<Rightarrow> (1, 0, k) | _ \<Rightarrow> (2, 0, []))"

definition dbAdd :: "string \<Rightarrow> jsval \<Rightarrow> (jsval \<times> jsval) list \<Rightarrow> (jsval \<times> jsval) list option" where
  "dbAdd stamp obj d =
     (case obj of
        JObj kvs \<Rightarrow>
          (let key = js_or (field obj ''timestamp'') (JStr stamp);
               obj' = JObj (obj_put kvs ''timestamp'' key)
           in if \<not> valid_key key \<or> key \<in> fst ` set d then None
              else Some (d @ [(key, obj')]))
      | _ \<Rightarrow> None)"

definition dbGetAll :: "(jsval \<times> jsval) list \<Rightarrow> jsval list" where
  "dbGetAll d = map snd (sort_key (\<lambda>kv. key_rank (fst kv)) d)"

definition indexedDB :: "((jsval \<times> jsval) list) srm_db" where
  "indexedDB = \<lparr>db_add = dbAdd, db_getAll = dbGetAll, db_clear = (\<lambda>d. [])\<rparr>"

text \<open>The records of one frame: one per match whose label is not \<open>unknown\<close>.\<close>

definition face_record :: "client_env \<Rightarrow> string \<Rightarrow> rat \<Rightarrow> jsval" where
  "face_record env label distance =
     JObj [(''student_id'', JNum (js_Number env (JStr label))),
           (''status'', JStr ''present''),
           (''method'', JStr ''face''),
           (''confidence'',
              JNum (Fin (js_divide (js_Math_round (js_times (js_minus 1 distance) 10000)) 100))),
           (''date'', JStr (iso_date env)),
           (''timestamp'', JStr (iso_stamp env))]"

definition build_records :: "(client_env \<times> string \<times> rat) list \<Rightarrow> jsval list" where
  "build_records results =
     map (\<lambda>(env, label, distance). face_record env label distance)
       (filter (\<lambda>(env, label, distance). label \<noteq> [] \<and> label \<noteq> ''unknown'') results)"

text \<open>
  \<open>for (const rec of records) await window.srmDB.add(rec)\<close>: a rejected \<open>add\<close> ends the
  loop (the rejection is caught outside it), the records before it stay queued.
\<close>

fun add_each :: "'d srm_db \<Rightarrow> string \<Rightarrow> jsval list \<Rightarrow> 'd \<Rightarrow> 'd" where
  "add_each db stamp [] d = d"
| "add_each db stamp (r # rs) d =
     (case db_add db stamp r d of None \<Rightarrow> d | Some d' \<Rightarrow> add_each db stamp rs d')"

definition scan_batch ::
  "'d srm_db \<Rightarrow> string \<Rightarrow> 's endpoint \<Rightarrow> (client_env \<times> string \<times> rat) list \<Rightarrow> 'd \<times> 's \<Rightarrow> 'd \<times> 's" where
  "scan_batch db stamp post results ds =
     (case ds of (d, s) \<Rightarrow>
        (let records = build_records results
         in if length records = 0 then (d, s)
            else (case post (JObj [(''records'', JArr records)]) s of
                    (Rejected, s') \<Rightarrow> (add_each db stamp records d, s')
                  | (Resolved res, s') \<Rightarrow>
                      (if ok res then (d, s') else (add_each db stamp records d, s')))))"

text \<open>The sync button: post everything \<open>getAll\<close> returns, clear the queue when the response is ok.\<close>

definition syncBtn_click :: "'d srm_db \<Rightarrow> 's endpoint \<Rightarrow> 'd \<times> 's \<Rightarrow> 'd \<times> 's" where
  "syncBtn_click db post ds =
     (case ds of (d, s) \<Rightarrow>
        (let items = db_getAll db d
         in if length items = 0 then (d, s)
            else (case post (JObj [(''records'', JArr items)]) s of
                    (Rejected, s') \<Rightarrow> (d, s')
                  | (Resolved res, s') \<Rightarrow>
                      (if ok res then (db_clear db d, s') else (d, s')))))"

text \<open>Enqueueing a list of records one after the other; \<open>None\<close> when an \<open>add\<close> rejects.\<close>

fun enqueue_all :: "'d srm_db \<Rightarrow> string \<Rightarrow> jsval list \<Rightarrow> 'd \<Rightarrow> 'd option" where
  "enqueue_all db stamp [] d = Some d"
| "enqueue_all db stamp (r # rs) d =
     (case db_add db stamp r d of None \<Rightarrow> None | Some d' \<Rightarrow> enqueue_all db stamp rs d')"

section \<open>Example inputs\<close>

text \<open>
  The inputs the examples below run on: a conversion table that reads the string
  \<open>42\<close> as a number and nothing else, a server whose database answers (and is not asked
  for anything beyond integers and valid dates), and the mark request of the scenario of
  the specification, its confidence the double written \<open>0.91\<close>. A student whose roll is
  \<open>__proto__\<close> is among those the scanner knows.
\<close>

definition demo_number :: "jsval \<Rightarrow> jsnum" where
  "demo_number v = (if v = JStr ''42'' then Fin 42 else NaN)"

definition demo_env :: server_env where
  "demo_env = \<lparr>to_number = demo_number, to_string = (\<lambda>v. []), today = ''2024-03-02'',
     select_ok = True, insert_ok = True, db_message = [],
     sql_int = (\<lambda>v. 0), sql_int_match = (\<lambda>k v. False),
     sql_date = (\<lambda>v. ''0000-00-00''), sql_date_match = (\<lambda>s v. False),
     sql_store = (\<lambda>column v. v)\<rparr>"

definition demo_mark :: "rat \<Rightarrow> jsval" where
  "demo_mark n = JObj [(''student_id'', JNum (Fin n)), (''date'', JStr ''2024-03-01''),
     (''status'', JStr ''present''), (''method'', JStr ''face''),
     (''confidence'', JNum (Fin (to_double (91 / 100))))]"

definition demo_row :: "int \<Rightarrow> att_row" where
  "demo_row n = \<lparr>col_student_id = n, col_date = ''2024-03-01'',
     col_status = JStr ''present'', col_method = JStr ''face'',
     col_confidence = JNum (Fin (to_double (91 / 100))), col_marked_by = JNum (Fin 2)\<rparr>"

definition demo_cenv :: "int \<Rightarrow> client_env" where
  "demo_cenv t = \<lparr>to_number = demo_number, to_string = (\<lambda>v. []), now = t,
     iso_date = ''2024-03-01'', iso_stamp = ''2024-03-01T09:00:00.000Z''\<rparr>"

definition demo_scanner :: scanner where
  "demo_scanner = \<lparr>recentMarks = Map.empty,
     labelToStudentId = [''R-042'' \<mapsto> JNum (Fin 42), ''R-043'' \<mapsto> JNum (Fin 43),
       ''__proto__'' \<mapsto> JNum (Fin 44)],
     offline_attendance = [], sessionMarked = []\<rparr>"

text \<open>An endpoint that cannot be reached and keeps a log of the requests sent to it.\<close>

definition logging :: "(jsval list) endpoint" where
  "logging b lg = (Rejected, lg @ [b])"

definition demo_queued :: "rat \<Rightarrow> jsval" where
  "demo_queued n = JObj [(''student_id'', JNum (Fin n)), (''date'', JStr ''2024-03-01''),
     (''timestamp'', JStr ''2024-03-01T09:00:00.000Z''), (''status'', JStr ''present''),
     (''method'', JStr ''face''), (''confidence'', JNum (Fin (to_double (91 / 100)))),
     (''synced'', JBool False)]"

definition demo_record :: "rat \<Rightarrow> string \<Rightarrow> jsval" where
  "demo_record n stamp = JObj [(''student_id'', JNum (Fin n)), (''status'', JStr ''present''),
     (''method'', JStr ''face''), (''confidence'', JNum (Fin 91)),
     (''date'', JStr ''2024-03-01''), (''timestamp'', JStr stamp)]"

section \<open>Facts about the doubles and the columns\<close>

lemma round_even_err: "\<bar>of_int (round_even z) - z\<bar> \<le> 1 / 2"
proof -
  have "of_int \<lfloor>z\<rfloor> \<le> z" "z < of_int \<lfloor>z\<rfloor> + 1" by linarith+
  then show ?thesis unfolding round_even_def Let_def by (auto simp: abs_le_iff)
qed

lemma binade_le:
  assumes "0 < x"
  shows "2 powi (binade x) \<le> x"
proof -
  obtain a b where q: "quotient_of x = (a, b)" by (cases "quotient_of x")
  then have b: "0 < b" and x: "x = of_int a / of_int b"
    by (simp_all add: quotient_of_denom_pos quotient_of_div)
  with assms have a: "0 < a" by (simp add: zero_less_divide_iff)
  define k where "k = bitlen a - bitlen b"
  have la: "2 ^ nat (bitlen a - 1) \<le> a" using bitlen_bounds [OF a] by simp
  have lb: "b < 2 ^ nat (bitlen b)" using bitlen_bounds [OF b] by simp
  have pa: "1 \<le> bitlen a"
    using a bitlen_bounds [OF a]
    by (smt (verit) bitlen_nonneg power_0 nat_0_iff zero_less_power)
  have pb: "0 \<le> bitlen b" by (rule bitlen_nonneg)
  have "(2::rat) powi (k - 1) = 2 powi (bitlen a - 1) / 2 powi (bitlen b)"
    unfolding k_def by (simp add: power_int_diff)
  also have "\<dots> = 2 ^ nat (bitlen a - 1) / 2 ^ nat (bitlen b)"
    using pa pb by (simp add: power_int_def)
  also have "\<dots> \<le> of_int a / 2 ^ nat (bitlen b)"
  proof -
    have "(2::rat) ^ nat (bitlen a - 1) \<le> of_int a"
      using la by (metis of_int_le_iff of_int_numeral of_int_power)
    then show ?thesis by (simp add: divide_right_mono)
  qed
  also have "\<dots> \<le> of_int a / of_int b"
  proof -
    have "(of_int b :: rat) \<le> 2 ^ nat (bitlen b)"
      using lb by (metis less_imp_le of_int_le_iff of_int_numeral of_int_power)
    moreover have "(0::rat) < of_int b" using b by simp
    moreover have "(0::rat) \<le> of_int a" using a by simp
    ultimately show ?thesis by (simp add: divide_left_mono)
  qed
  finally have low: "2 powi (k - 1) \<le> x" by (simp add: x)
  show ?thesis
    using low by (simp add: binade_def q k_def Let_def)
qed

text \<open>Rounding to a double moves a positive number by at most the fraction \<open>2^-53\<close> of it.\<close>

lemma to_double_err:
  assumes "0 < x"
  shows "\<bar>to_double x - x\<bar> \<le> x / 2 ^ 53"
proof -
  define q :: rat where "q = 2 powi (binade x - 52)"
  have qpos: "0 < q" by (simp add: q_def zero_less_power_int)
  have td: "to_double x = of_int (round_even (x / q)) * q"
    using assms by (simp add: to_double_def q_def Let_def)
  have "\<bar>of_int (round_even (x / q)) - x / q\<bar> \<le> 1 / 2" by (rule round_even_err)
  then have "\<bar>of_int (round_even (x / q)) - x / q\<bar> * q \<le> 1 / 2 * q"
    using qpos by (simp add: mult_right_mono)
  moreover have "\<bar>of_int (round_even (x / q)) - x / q\<bar> * q =
      \<bar>of_int (round_even (x / q)) * q - x\<bar>"
  proof -
    have "\<bar>of_int (round_even (x / q)) - x / q\<bar> * q =
        \<bar>(of_int (round_even (x / q)) - x / q) * q\<bar>"
      using qpos by (simp add: abs_mult)
    also have "(of_int (round_even (x / q)) - x / q) * q = of_int (round_even (x / q)) * q - x"
      using qpos by (simp add: algebra_simps)
    finally show ?thesis .
  qed
  ultimately have e1: "\<bar>to_double x - x\<bar> \<le> q / 2" by (simp add: td)
  have "q = 2 powi (binade x) / 2 ^ 52"
    by (simp add: q_def power_int_diff)
  then have "q / 2 = 2 powi (binade x) / 2 ^ 53" by simp
  also have "\<dots> \<le> x / 2 ^ 53"
    using binade_le [OF assms] by (simp add: divide_right_mono)
  finally show ?thesis using e1 by linarith
qed

lemma to_double_bounds:
  assumes "0 \<le> x"
  shows "0 \<le> to_double x" "to_double x \<le> x + x / 2 ^ 53" "x - x / 2 ^ 53 \<le> to_double x"
proof -
  define e :: rat where "e = x / 2 ^ 53"
  have err: "\<bar>to_double x - x\<bar> \<le> e"
  proof (cases "x = 0")
    case True
    then show ?thesis by (simp add: to_double_def e_def)
  next
    case False
    with assms have "0 < x" by simp
    from to_double_err [OF this] show ?thesis by (simp only: e_def)
  qed
  have "x / 2 ^ 53 \<le> x / 1"
    by (rule divide_left_mono) (use assms in simp_all)
  then have small: "e \<le> x" by (simp only: e_def div_by_1)
  from err small show "0 \<le> to_double x" by linarith
  from err show "to_double x \<le> x + x / 2 ^ 53" unfolding e_def [symmetric] by linarith
  from err show "x - x / 2 ^ 53 \<le> to_double x" unfolding e_def [symmetric] by linarith
qed

lemma round_half_away_int: "round_half_away (of_int k) = k"
  by (simp add: round_half_away_def floor_eq_iff)

lemma int_column_int: "int_range k \<Longrightarrow> int_column env (JNum (Fin (of_int k))) = k"
  by (simp add: int_column_def round_half_away_int)

lemma int_column_numeral:
  "int_range (numeral n) \<Longrightarrow> int_column env (JNum (Fin (numeral n))) = numeral n"
  using int_column_int [of "numeral n" env] by simp

lemma int_equals_int: "int_equals env k' (JNum (Fin (of_int k))) \<longleftrightarrow> k' = k"
  by (simp add: int_equals_def)

lemma demo_date: "canonical_date ''2024-03-01''" "canonical_date ''2024-03-02''"
  by (simp_all add: canonical_date_def is_digit_def num_of_def days_in_month_def)

lemma date_column_canonical: "canonical_date d \<Longrightarrow> date_column env (JStr d) = d"
  by (simp add: date_column_def)

lemma date_equals_canonical: "canonical_date d \<Longrightarrow> date_equals env s (JStr d) \<longleftrightarrow> s = d"
  by (simp add: date_equals_def)

lemma canonical_date_nonempty: "canonical_date d \<Longrightarrow> d \<noteq> []"
  by (auto simp: canonical_date_def)

section \<open>The mark endpoint: uniqueness, conflicts, rejection\<close>

lemmas demo_simps = demo_env_def demo_mark_def demo_row_def demo_number_def attendance_mark_def
  Let_def field_def js_or_def dflt_def normalize_student_id_def existing_rows_def user_id_def
  mark_success_def already_marked_def invalid_payload_def int_column_numeral int_range_def
  int_equals_def date_column_def date_equals_def demo_date

lemma field_js_or: "field (js_or b (JObj [])) k = field b k"
  by (cases b rule: truthy.cases) (simp_all add: js_or_def field_def)

lemma js_or_JStr: "d \<noteq> [] \<Longrightarrow> js_or (JStr d) x = JStr d"
  by (simp add: js_or_def)

lemma normalize_number:
  "n \<noteq> 0 \<Longrightarrow> normalize_student_id env (JNum (Fin n)) = JNum (Fin n)"
  by (simp add: normalize_student_id_def)

text \<open>
  On an integer id and a valid date the SELECT finds a row exactly when a row with the
  pair that the INSERT would store is in the table.
\<close>

lemma existing_rows_typed:
  assumes "is_int_id student_id" "is_date date"
  shows "existing_rows env st student_id date = [] \<longleftrightarrow>
           (int_column env student_id, date_column env date) \<notin> row_key ` set st"
proof -
  from assms(1) obtain r where sid: "student_id = JNum (Fin r)"
    and r: "r = of_int \<lfloor>r\<rfloor>" "int_range \<lfloor>r\<rfloor>"
    by (auto simp: is_int_id_def split: jsval.splits jsnum.splits)
  from assms(2) obtain d where date: "date = JStr d" and d: "canonical_date d"
    by (auto simp: is_date_def split: jsval.splits)
  have col: "int_column env student_id = \<lfloor>r\<rfloor>"
    using int_column_int [OF r(2), of env] r(1) sid by simp
  have eq: "\<And>k. int_equals env k student_id \<longleftrightarrow> k = \<lfloor>r\<rfloor>"
    using int_equals_int [of env _ "\<lfloor>r\<rfloor>"] r(1) sid by simp
  show ?thesis
    unfolding col
    by (auto simp: existing_rows_def eq date d date_column_canonical date_equals_canonical
        row_key_def filter_empty_conv image_iff)
qed








lemma attendance_mark_fresh:
  assumes "field b ''student_id'' = JNum (Fin (of_int k))" "k \<noteq> 0" "int_range k"
    and "field b ''date'' = JStr d" "canonical_date d"
    and "select_ok env" "insert_ok env"
    and "(k, d) \<notin> row_key ` set st"
  shows "\<exists>row. attendance_mark env b st =
             (mark_success (JNum (Fin (of_int k))) (JStr d), st @ [row]) \<and>
           row_key row = (k, d)"
proof -
  have t: "is_int_id (JNum (Fin (of_int k)))" "is_date (JStr d)"
    using assms(3,5) by (simp_all add: is_int_id_def is_date_def)
  have ex: "existing_rows env st (JNum (Fin (of_int k))) (JStr d) = []"
    using assms(3,5,8)
    by (simp add: existing_rows_typed [OF t] int_column_int date_column_canonical)
  show ?thesis
    using assms(1,2,3,4,5,6,7) canonical_date_nonempty [OF assms(5)]
    by (simp add: attendance_mark_def Let_def field_js_or normalize_number js_or_JStr ex
        row_key_def int_column_int date_column_canonical)
qed

lemma attendance_mark_repeat:
  assumes "field b ''student_id'' = JNum (Fin (of_int k))" "k \<noteq> 0" "int_range k"
    and "field b ''date'' = JStr d" "canonical_date d"
    and "select_ok env"
    and "(k, d) \<in> row_key ` set st"
  shows "attendance_mark env b st = (already_marked, st)"
proof -
  have t: "is_int_id (JNum (Fin (of_int k)))" "is_date (JStr d)"
    using assms(3,5) by (simp_all add: is_int_id_def is_date_def)
  have ex: "existing_rows env st (JNum (Fin (of_int k))) (JStr d) \<noteq> []"
    using assms(3,5,7)
    by (simp add: existing_rows_typed [OF t] int_column_int date_column_canonical)
  show ?thesis
    using assms(1,2,4,6) canonical_date_nonempty [OF assms(5)]
    by (simp add: attendance_mark_def Let_def field_js_or normalize_number js_or_JStr ex)
qed

text \<open>
  Claim C2. Two sequential mark calls with the same valid arguments (a student id that
  is a nonzero integer of the INT range, and a calendar date), on a table without a row
  for them and with the database answering: the first responds
  \<open>{success: true, student_id, date}\<close> and inserts one row, the second responds 409
  \<open>already_marked\<close> and inserts nothing; a third call for another student id on the
  same date succeeds and inserts its own row. The witness is the scenario of the
  specification: student 42 on 2024-03-01, the repeat, then student 43.
\<close>

theorem mark_twice_then_other:
  assumes b: "field b ''student_id'' = JNum (Fin (of_int k))" "k \<noteq> 0" "int_range k"
      "field b ''date'' = JStr d" "canonical_date d"
    and b': "field b' ''student_id'' = JNum (Fin (of_int k'))" "k' \<noteq> 0" "int_range k'"
      "field b' ''date'' = JStr d"
    and diff: "k' \<noteq> k"
    and db: "select_ok e1" "insert_ok e1" "select_ok e2" "select_ok e3" "insert_ok e3"
    and fresh: "(k, d) \<notin> row_key ` set st" "(k', d) \<notin> row_key ` set st"
  shows "\<exists>row row'.
           attendance_mark e1 b st = (mark_success (JNum (Fin (of_int k))) (JStr d), st @ [row]) \<and>
           attendance_mark e2 b (st @ [row]) = (already_marked, st @ [row]) \<and>
           attendance_mark e3 b' (st @ [row]) =
             (mark_success (JNum (Fin (of_int k'))) (JStr d), st @ [row, row'])"
proof -
  from attendance_mark_fresh [OF b db(1,2) fresh(1)] obtain row where
    r1: "attendance_mark e1 b st = (mark_success (JNum (Fin (of_int k))) (JStr d), st @ [row])"
    and k1: "row_key row = (k, d)" by blast
  have r2: "attendance_mark e2 b (st @ [row]) = (already_marked, st @ [row])"
    by (rule attendance_mark_repeat [OF b db(3)]) (simp add: k1)
  have "(k', d) \<notin> row_key ` set (st @ [row])"
    using fresh(2) k1 diff by auto
  from attendance_mark_fresh [OF b'(1,2,3,4) b(5) db(4,5) this] obtain row' where
    r3: "attendance_mark e3 b' (st @ [row]) =
           (mark_success (JNum (Fin (of_int k'))) (JStr d), (st @ [row]) @ [row'])"
    by blast
  from r1 r2 r3 show ?thesis by auto
qed

theorem mark_twice_then_other_witness:
  "attendance_mark demo_env (demo_mark 42) [] =
     (\<lparr>code = 200, body = JObj [(''success'', JBool True), (''student_id'', JNum (Fin 42)),
         (''date'', JStr ''2024-03-01'')]\<rparr>, [demo_row 42])
   \<and> attendance_mark demo_env (demo_mark 42) [demo_row 42] =
     (\<lparr>code = 409, body = JObj [(''error'', JStr ''already_marked''),
         (''message'', JStr ''Attendance already marked for this student on this date'')]\<rparr>,
      [demo_row 42])
   \<and> attendance_mark demo_env (demo_mark 43) [demo_row 42] =
     (\<lparr>code = 200, body = JObj [(''success'', JBool True), (''student_id'', JNum (Fin 43)),
         (''date'', JStr ''2024-03-01'')]\<rparr>, [demo_row 42, demo_row 43])
   \<and> (\<exists>row row'.
         attendance_mark demo_env (demo_mark 42) [] =
           (mark_success (JNum (Fin 42)) (JStr ''2024-03-01''), [row]) \<and>
         attendance_mark demo_env (demo_mark 42) [row] = (already_marked, [row]) \<and>
         attendance_mark demo_env (demo_mark 43) [row] =
           (mark_success (JNum (Fin 43)) (JStr ''2024-03-01''), [row, row']))"
proof -
  have h: "field (demo_mark 42) ''student_id'' = JNum (Fin (of_int 42))" "(42::int) \<noteq> 0"
    "int_range 42" "field (demo_mark 42) ''date'' = JStr ''2024-03-01''"
    "canonical_date ''2024-03-01''"
    "field (demo_mark 43) ''student_id'' = JNum (Fin (of_int 43))" "(43::int) \<noteq> 0"
    "int_range 43" "field (demo_mark 43) ''date'' = JStr ''2024-03-01''" "(43::int) \<noteq> 42"
    "select_ok demo_env" "insert_ok demo_env"
    by (simp_all add: demo_env_def demo_mark_def field_def int_range_def demo_date)
  have "\<exists>row row'.
         attendance_mark demo_env (demo_mark 42) [] =
           (mark_success (JNum (Fin 42)) (JStr ''2024-03-01''), [row]) \<and>
         attendance_mark demo_env (demo_mark 42) [row] = (already_marked, [row]) \<and>
         attendance_mark demo_env (demo_mark 43) [row] =
           (mark_success (JNum (Fin 43)) (JStr ''2024-03-01''), [row, row'])"
    using mark_twice_then_other [OF h(1-10) h(11,12,11,11,12), of "[]"] by simp
  then show ?thesis by (simp add: demo_simps)
qed






section \<open>The sync endpoint and the offline round trip\<close>

lemma sync_row_object:
  "r \<noteq> JNull \<Longrightarrow> r \<noteq> JUndefined \<Longrightarrow> sync_row env r = Some (sync_values env r)"
  by (cases r) (simp_all add: sync_row_def)

lemma those_sync_rows:
  "\<forall>r \<in> set xs. r \<noteq> JNull \<and> r \<noteq> JUndefined \<Longrightarrow>
   those (map (sync_row env) xs) = Some (map (sync_values env) xs)"
  by (induction xs) (simp_all add: sync_row_object)

text \<open>The array the handler works on is the one the request submits.\<close>

lemma sync_array_of_body:
  "b \<noteq> JNull \<Longrightarrow> b \<noteq> JUndefined \<Longrightarrow>
   \<exists>recs. get_prop b ''records'' = Some recs \<and>
     as_array (js_or (js_or recs b) (JArr [])) = submitted_records b"
proof (cases b)
  case (JObj kvs)
  show ?thesis
  proof (cases "map_of kvs ''records''")
    case None
    with JObj show ?thesis by (simp add: js_or_def as_array_def submitted_records_def)
  next
    case (Some v)
    with JObj show ?thesis
      by (cases v rule: truthy.cases) (simp_all add: js_or_def as_array_def submitted_records_def)
  qed
qed (simp_all add: js_or_def as_array_def submitted_records_def)

text \<open>The array the minimal handler works on is the one under the key \<open>records\<close>.\<close>

lemma minimal_array_of_body:
  "b \<noteq> JNull \<Longrightarrow> b \<noteq> JUndefined \<Longrightarrow>
   \<exists>recs. get_prop b ''records'' = Some recs \<and>
     (if is_array recs then as_array recs else []) = records_array b"
proof (cases b)
  case (JObj kvs)
  show ?thesis
  proof (cases "map_of kvs ''records''")
    case None
    with JObj show ?thesis by (simp add: is_array_def as_array_def records_array_def)
  next
    case (Some v)
    with JObj show ?thesis
      by (cases v) (simp_all add: is_array_def as_array_def records_array_def)
  qed
qed (simp_all add: is_array_def as_array_def records_array_def)

lemma demo_confidence: "to_double (91 / 100) \<noteq> 0"
  by code_simp

text \<open>
  Claim C6, as stated, fails on both backends. The minimal backend, which the claim
  cites, answers a request without records with 400 and the error text \<open>no records\<close>,
  not \<open>no_records\<close>. The robust backend takes a body that is itself an array for the
  records: such a request has no records array in it, and its element is inserted.
\<close>

theorem batch_sync_counterexample:
  "attendance_sync_minimal demo_env (JObj []) [demo_row 42] =
     (\<lparr>code = 400, body = JObj [(''error'', JStr ''no records'')]\<rparr>, [demo_row 42])
   \<and> attendance_sync demo_env (JArr [demo_mark 42]) [] =
     (\<lparr>code = 200, body = JObj [(''success'', JBool True), (''inserted'', JNum (Fin 1))]\<rparr>,
      [demo_row 42])"
  by (simp add: attendance_sync_minimal_def attendance_sync_def minimal_no_records_def
      is_array_def as_array_def sync_row_def sync_success_def sync_values_def field_def
      js_or_def user_id_def demo_env_def demo_mark_def demo_row_def int_column_numeral
      int_range_def date_column_def demo_date demo_confidence Let_def)

text \<open>
  Claim C6, amended. For every request body that reaches a handler of POST
  /api/v1/attendance/sync (an object or an array, never \<open>null\<close>). The robust backend
  reads the records from the array under the key \<open>records\<close> or, for a body that is an
  array, from the body: when there are none, the response is 400 \<open>no_records\<close> and the
  table is unchanged. The minimal backend reads them from the array under \<open>records\<close>
  alone: when there are none, the response is 400 with the error \<open>no records\<close> and the
  table is unchanged. Otherwise, on either backend, the submitted records being objects
  and the database executing the INSERT, all of them are appended in one bulk insert,
  whatever rows the table already holds (no check of the pair of student id and date),
  and \<open>inserted\<close> is their number.
\<close>

theorem batch_sync:
  assumes "b \<noteq> JNull" "b \<noteq> JUndefined"
  shows "(submitted_records b = [] \<longrightarrow> attendance_sync env b st = (no_records, st)) \<and>
         (submitted_records b \<noteq> [] \<and> insert_ok env \<and>
          (\<forall>r \<in> set (submitted_records b). r \<noteq> JNull \<and> r \<noteq> JUndefined) \<longrightarrow>
          attendance_sync env b st =
            (sync_success (length (submitted_records b)),
             st @ map (sync_values env) (submitted_records b))) \<and>
         (records_array b = [] \<longrightarrow> attendance_sync_minimal env b st = (minimal_no_records, st)) \<and>
         (records_array b \<noteq> [] \<and> insert_ok env \<and>
          (\<forall>r \<in> set (records_array b). r \<noteq> JNull \<and> r \<noteq> JUndefined) \<longrightarrow>
          attendance_sync_minimal env b st =
            (sync_success (length (records_array b)),
             st @ map (sync_values env) (records_array b)))"
proof -
  from sync_array_of_body [OF assms] obtain recs where
    r: "get_prop b ''records'' = Some recs"
    and a: "as_array (js_or (js_or recs b) (JArr [])) = submitted_records b" by blast
  from minimal_array_of_body [OF assms] obtain recs' where
    r': "get_prop b ''records'' = Some recs'"
    and a': "(if is_array recs' then as_array recs' else []) = records_array b" by blast
  have robust: "(submitted_records b = [] \<longrightarrow> attendance_sync env b st = (no_records, st)) \<and>
         (submitted_records b \<noteq> [] \<and> insert_ok env \<and>
          (\<forall>r \<in> set (submitted_records b). r \<noteq> JNull \<and> r \<noteq> JUndefined) \<longrightarrow>
          attendance_sync env b st =
            (sync_success (length (submitted_records b)),
             st @ map (sync_values env) (submitted_records b)))"
    by (simp add: attendance_sync_def r a Let_def those_sync_rows)
  have minimal: "(records_array b = [] \<longrightarrow>
            attendance_sync_minimal env b st = (minimal_no_records, st)) \<and>
         (records_array b \<noteq> [] \<and> insert_ok env \<and>
          (\<forall>r \<in> set (records_array b). r \<noteq> JNull \<and> r \<noteq> JUndefined) \<longrightarrow>
          attendance_sync_minimal env b st =
            (sync_success (length (records_array b)),
             st @ map (sync_values env) (records_array b)))"
  proof (cases "is_array recs'")
    case True
    with a' have "as_array recs' = records_array b" by simp
    with True show ?thesis
      by (simp add: attendance_sync_minimal_def r' those_sync_rows)
  next
    case False
    with a' have "records_array b = []" by simp
    with False show ?thesis by (simp add: attendance_sync_minimal_def r')
  qed
  from robust minimal show ?thesis by simp
qed

theorem batch_sync_witness:
  "attendance_sync demo_env (JObj []) [demo_row 42] =
     (\<lparr>code = 400, body = JObj [(''error'', JStr ''no_records'')]\<rparr>, [demo_row 42])
   \<and> attendance_sync demo_env (JObj [(''records'', JArr [])]) [demo_row 42] =
     (no_records, [demo_row 42])
   \<and> attendance_sync demo_env (JObj [(''records'', JArr [demo_mark 42, demo_mark 42])])
       [demo_row 42] =
     (\<lparr>code = 200, body = JObj [(''success'', JBool True), (''inserted'', JNum (Fin 2))]\<rparr>,
      [demo_row 42, demo_row 42, demo_row 42])
   \<and> attendance_sync_minimal demo_env (JObj [(''records'', JArr [])]) [demo_row 42] =
     (\<lparr>code = 400, body = JObj [(''error'', JStr ''no records'')]\<rparr>, [demo_row 42])
   \<and> attendance_sync_minimal demo_env (JArr [demo_mark 42]) [demo_row 42] =
     (minimal_no_records, [demo_row 42])
   \<and> attendance_sync_minimal demo_env (JObj [(''records'', JArr [demo_mark 42, demo_mark 42])])
       [demo_row 42] =
     (\<lparr>code = 200, body = JObj [(''success'', JBool True), (''inserted'', JNum (Fin 2))]\<rparr>,
      [demo_row 42, demo_row 42, demo_row 42])"
  using batch_sync [of "JObj []" demo_env "[demo_row 42]"]
    batch_sync [of "JObj [(''records'', JArr [])]" demo_env "[demo_row 42]"]
    batch_sync [of "JObj [(''records'', JArr [demo_mark 42, demo_mark 42])]" demo_env
      "[demo_row 42]"]
    batch_sync [of "JArr [demo_mark 42]" demo_env "[demo_row 42]"]
  by (simp add: submitted_records_def records_array_def no_records_def minimal_no_records_def
      sync_success_def sync_values_def field_def js_or_def user_id_def demo_env_def
      demo_mark_def demo_row_def int_column_numeral int_range_def date_column_def demo_date
      demo_confidence)

text \<open>The mark handler of the minimal backend inserts without looking at the table.\<close>

lemma minimal_mark_appends:
  assumes "get_prop b ''student_id'' = Some v" "truthy v" "insert_ok env"
  shows "\<exists>row. attendance_mark_minimal env b st =
           (\<lparr>code = 200, body = JObj [(''success'', JBool True)]\<rparr>, st @ [row])"
  using assms by (simp add: attendance_mark_minimal_def Let_def)

lemma fold_queueAttendance:
  "fold queueAttendance recs c = c\<lparr>offline_attendance := offline_attendance c @ recs\<rparr>"
  by (induction recs arbitrary: c) (simp_all add: queueAttendance_def)

lemma sync_records_body:
  assumes "recs \<noteq> []" "insert_ok env" "\<forall>r \<in> set recs. r \<noteq> JNull \<and> r \<noteq> JUndefined"
  shows "attendance_sync env (JObj [(''records'', JArr recs)]) st =
           (sync_success (length recs), st @ map (sync_values env) recs)"
  using assms
  by (simp add: attendance_sync_def js_or_def as_array_def Let_def those_sync_rows)

lemma ok_sync_success: "ok (sync_success n)"
  by (simp add: ok_def sync_success_def)

lemma syncOfflineQueue_online:
  assumes "insert_ok env" "\<forall>r \<in> set (offline_attendance c). r \<noteq> JNull \<and> r \<noteq> JUndefined"
  shows "snd (syncOfflineQueue (online (attendance_sync env)) (c, st)) =
           (c\<lparr>offline_attendance := []\<rparr>, st @ map (sync_values env) (offline_attendance c))"
proof (cases "offline_attendance c = []")
  case True
  then show ?thesis by (simp add: syncOfflineQueue_def)
next
  case False
  with assms show ?thesis
    by (simp add: syncOfflineQueue_def Let_def online_def sync_records_body ok_sync_success)
qed

lemma syncBtn_online:
  assumes "insert_ok env" "\<forall>r \<in> set (db_getAll db d). r \<noteq> JNull \<and> r \<noteq> JUndefined"
    and "db_getAll db d = [] \<longrightarrow> db_clear db d = d"
  shows "syncBtn_click db (online (attendance_sync env)) (d, st) =
           (db_clear db d, st @ map (sync_values env) (db_getAll db d))"
proof (cases "db_getAll db d = []")
  case True
  with assms(3) show ?thesis by (simp add: syncBtn_click_def)
next
  case False
  with assms show ?thesis
    by (simp add: syncBtn_click_def Let_def online_def sync_records_body ok_sync_success)
qed

lemma enqueue_fakeDB: "enqueue_all fakeDB stamp recs q = Some (q @ recs)"
  by (induction recs arbitrary: q) (simp_all add: fakeDB_def)

text \<open>
  How records reach the queue behind \<open>window.srmDB\<close>: a frame whose batch cannot be
  sent is added record by record, and where every \<open>add\<close> succeeds that is the
  enqueueing of the whole list.
\<close>

lemma scan_batch_unreachable:
  "build_records results \<noteq> [] \<Longrightarrow>
   scan_batch db stamp unreachable results (d, s) =
     (add_each db stamp (build_records results) d, s)"
  by (simp add: scan_batch_def unreachable_def Let_def)

lemma add_each_enqueue_all:
  "enqueue_all db stamp recs d = Some d' \<Longrightarrow> add_each db stamp recs d = d'"
  by (induction recs arbitrary: d) (auto split: option.splits)

lemma map_of_obj_put:
  "map_of (obj_put kvs k v) k' = (if k' = k then Some v else map_of kvs k')"
  by (induction kvs) auto

lemma sync_values_obj_put:
  "sync_values env (JObj (obj_put kvs ''timestamp'' v)) = sync_values env (JObj kvs)"
  by (simp add: sync_values_def field_def map_of_obj_put)

lemma dbAdd_Some:
  assumes "dbAdd stamp r d = Some d'"
  shows "\<exists>k r'. d' = d @ [(k, r')] \<and> r' \<noteq> JNull \<and> r' \<noteq> JUndefined \<and>
           sync_values env r' = sync_values env r"
proof (cases r)
  case (JObj kvs)
  with assms show ?thesis
    by (auto simp: dbAdd_def Let_def sync_values_obj_put split: if_splits)
qed (use assms in \<open>simp_all add: dbAdd_def\<close>)

lemma enqueue_indexedDB:
  "enqueue_all indexedDB stamp recs d = Some d' \<Longrightarrow>
   \<exists>items. d' = d @ items \<and> map (sync_values env) (map snd items) = map (sync_values env) recs \<and>
     (\<forall>r \<in> set (map snd items). r \<noteq> JNull \<and> r \<noteq> JUndefined)"
proof (induction recs arbitrary: d)
  case Nil
  then show ?case by simp
next
  case (Cons r recs)
  from Cons.prems obtain d1 where a: "dbAdd stamp r d = Some d1"
    and rest: "enqueue_all indexedDB stamp recs d1 = Some d'"
    by (auto simp: indexedDB_def split: option.splits)
  from dbAdd_Some [OF a, of env] obtain k r' where d1: "d1 = d @ [(k, r')]"
    and r': "r' \<noteq> JNull" "r' \<noteq> JUndefined" "sync_values env r' = sync_values env r" by blast
  from Cons.IH [OF rest] obtain items where items: "d' = d1 @ items"
    "map (sync_values env) (map snd items) = map (sync_values env) recs"
    "\<forall>r \<in> set (map snd items). r \<noteq> JNull \<and> r \<noteq> JUndefined" by blast
  show ?case
    by (rule exI [of _ "(k, r') # items"]) (use d1 r' items in simp)
qed

lemma mset_dbGetAll: "mset (dbGetAll d) = mset (map snd d)"
  by (simp add: dbGetAll_def)

lemma set_dbGetAll: "set (dbGetAll d) = set (map snd d)"
  by (simp add: dbGetAll_def)

lemma dbGetAll_Nil: "dbGetAll d = [] \<longleftrightarrow> d = []"
proof -
  have "length (dbGetAll d) = length d" by (simp add: dbGetAll_def)
  then show ?thesis by (metis length_0_conv)
qed

lemma syncBtn_indexedDB:
  assumes "insert_ok env" "enqueue_all indexedDB stamp recs [] = Some d"
  shows "\<exists>rows. syncBtn_click indexedDB (online (attendance_sync env)) (d, st) = ([], st @ rows) \<and>
           mset rows = mset (map (sync_values env) recs) \<and> length rows = length recs"
proof -
  from enqueue_indexedDB [OF assms(2), of env] have
    vals: "map (sync_values env) (map snd d) = map (sync_values env) recs"
    and objs: "\<forall>r \<in> set (map snd d). r \<noteq> JNull \<and> r \<noteq> JUndefined" by auto
  have click: "syncBtn_click indexedDB (online (attendance_sync env)) (d, st) =
          (db_clear indexedDB d, st @ map (sync_values env) (db_getAll indexedDB d))"
    by (rule syncBtn_online)
      (use assms(1) objs in \<open>auto simp: indexedDB_def set_dbGetAll dbGetAll_Nil\<close>)
  have "mset (map (sync_values env) (dbGetAll d)) =
          image_mset (sync_values env) (mset (dbGetAll d))"
    by simp
  also have "\<dots> = image_mset (sync_values env) (mset (map snd d))"
    by (simp only: mset_dbGetAll)
  finally have "mset (map (sync_values env) (dbGetAll d)) =
          mset (map (sync_values env) (map snd d))"
    by (simp only: mset_map)
  then have m: "mset (map (sync_values env) (dbGetAll d)) = mset (map (sync_values env) recs)"
    by (simp only: vals)
  then have "size (mset (map (sync_values env) (dbGetAll d))) =
          size (mset (map (sync_values env) recs))"
    by simp
  then have l: "length (map (sync_values env) (dbGetAll d)) = length recs" by simp
  show ?thesis
    by (rule exI [of _ "map (sync_values env) (dbGetAll d)"])
      (use click m l in \<open>simp add: indexedDB_def\<close>)
qed

text \<open>
  Claim C7. Offline round trip. The records enqueued while the server could not be
  reached (any number \<open>N\<close> of them, objects as the scripts build them) are then flushed
  with the server reachable and its database executing the INSERT: afterwards the table
  holds the old rows followed by exactly \<open>N\<close> new ones, one per record, and the local
  queue is empty. This holds for \<open>syncOfflineQueue\<close> on the localStorage queue and for
  the sync button on both queues behind \<open>window.srmDB\<close> (for the IndexedDB store the new
  rows come in key order). Distinct pairs of student id and date are not needed.
\<close>

theorem offline_round_trip:
  assumes "insert_ok env" "\<forall>r \<in> set recs. r \<noteq> JNull \<and> r \<noteq> JUndefined"
  shows "snd (syncOfflineQueue (online (attendance_sync env))
                (fold queueAttendance recs (c\<lparr>offline_attendance := []\<rparr>), st)) =
           (c\<lparr>offline_attendance := []\<rparr>, st @ map (sync_values env) recs)
         \<and> length (st @ map (sync_values env) recs) = length st + length recs
         \<and> (\<forall>q. enqueue_all fakeDB stamp recs [] = Some q \<longrightarrow>
              syncBtn_click fakeDB (online (attendance_sync env)) (q, st) =
                ([], st @ map (sync_values env) recs))
         \<and> (\<forall>d. enqueue_all indexedDB stamp recs [] = Some d \<longrightarrow>
              (\<exists>rows. syncBtn_click indexedDB (online (attendance_sync env)) (d, st) =
                         ([], st @ rows) \<and>
                 mset rows = mset (map (sync_values env) recs) \<and> length rows = length recs))"
proof (intro conjI allI impI)
  show "snd (syncOfflineQueue (online (attendance_sync env))
                (fold queueAttendance recs (c\<lparr>offline_attendance := []\<rparr>), st)) =
           (c\<lparr>offline_attendance := []\<rparr>, st @ map (sync_values env) recs)"
    using assms by (simp add: syncOfflineQueue_online fold_queueAttendance)
next
  show "length (st @ map (sync_values env) recs) = length st + length recs" by simp
next
  fix q assume "enqueue_all fakeDB stamp recs [] = Some q"
  then have q: "q = recs" by (simp add: enqueue_fakeDB)
  have "syncBtn_click fakeDB (online (attendance_sync env)) (q, st) =
          (db_clear fakeDB q, st @ map (sync_values env) (db_getAll fakeDB q))"
    by (rule syncBtn_online) (use assms q in \<open>simp_all add: fakeDB_def\<close>)
  then show "syncBtn_click fakeDB (online (attendance_sync env)) (q, st) =
           ([], st @ map (sync_values env) recs)"
    by (simp add: q fakeDB_def)
next
  fix d assume "enqueue_all indexedDB stamp recs [] = Some d"
  from syncBtn_indexedDB [OF assms(1) this]
  show "\<exists>rows. syncBtn_click indexedDB (online (attendance_sync env)) (d, st) = ([], st @ rows) \<and>
           mset rows = mset (map (sync_values env) recs) \<and> length rows = length recs" .
qed

lemmas client_simps = demo_cenv_def demo_scanner_def markAttendanceForLabel_def
  markAttendanceForLabel_patched_def debounced_def record_mark_def resolve_student_def map_get_def
  mark_payload_def fallback_item_def unresolved_item_def obj_lit_def queueAttendance_def
  online_def unreachable_def logging_def ok_def set_add_def js_or_def Let_def

lemma demo_toFixed3: "js_toFixed3 (js_minus 1 (9 / 100)) = to_double (91 / 100)"
  by code_simp

theorem offline_round_trip_witness:
  "offline_attendance (fst (markAttendanceForLabel (demo_cenv 2000) unreachable ''R-043'' (9 / 100)
      (markAttendanceForLabel (demo_cenv 1000) unreachable ''R-042'' (9 / 100)
         (demo_scanner, [])))) = [demo_queued 42, demo_queued 43]
   \<and> snd (syncOfflineQueue (online (attendance_sync demo_env))
        (fold queueAttendance [demo_queued 42, demo_queued 43]
           (demo_scanner\<lparr>offline_attendance := []\<rparr>), [])) =
      (demo_scanner\<lparr>offline_attendance := []\<rparr>, [demo_row 42, demo_row 43])
   \<and> enqueue_all fakeDB [] [demo_record 42 ''09:00:00.000'', demo_record 43 ''09:00:00.300''] [] =
      Some [demo_record 42 ''09:00:00.000'', demo_record 43 ''09:00:00.300'']
   \<and> syncBtn_click fakeDB (online (attendance_sync demo_env))
        ([demo_record 42 ''09:00:00.000'', demo_record 43 ''09:00:00.300''], []) =
      ([], map (sync_values demo_env)
             [demo_record 42 ''09:00:00.000'', demo_record 43 ''09:00:00.300''])
   \<and> enqueue_all indexedDB [] [demo_record 42 ''09:00:00.000'', demo_record 43 ''09:00:00.300''] [] =
      Some [(JStr ''09:00:00.000'', demo_record 42 ''09:00:00.000''),
            (JStr ''09:00:00.300'', demo_record 43 ''09:00:00.300'')]
   \<and> (\<exists>rows. syncBtn_click indexedDB (online (attendance_sync demo_env))
          ([(JStr ''09:00:00.000'', demo_record 42 ''09:00:00.000''),
            (JStr ''09:00:00.300'', demo_record 43 ''09:00:00.300'')], []) = ([], rows)
        \<and> length rows = 2)"
proof -
  have env: "insert_ok demo_env" by (simp add: demo_env_def)
  have objs: "\<forall>r \<in> set [demo_queued 42, demo_queued 43]. r \<noteq> JNull \<and> r \<noteq> JUndefined"
    "\<forall>r \<in> set [demo_record 42 ''09:00:00.000'', demo_record 43 ''09:00:00.300''].
       r \<noteq> JNull \<and> r \<noteq> JUndefined"
    by (simp_all add: demo_queued_def demo_record_def)
  have queued: "offline_attendance (fst (markAttendanceForLabel (demo_cenv 2000) unreachable
      ''R-043'' (9 / 100) (markAttendanceForLabel (demo_cenv 1000) unreachable ''R-042'' (9 / 100)
         (demo_scanner, [])))) = [demo_queued 42, demo_queued 43]"
    by (simp add: client_simps demo_queued_def demo_toFixed3)
  have rows: "map (sync_values demo_env) [demo_queued 42, demo_queued 43] =
      [demo_row 42, demo_row 43]"
    by (simp add: sync_values_def demo_queued_def demo_row_def demo_env_def field_def js_or_def
        user_id_def int_column_numeral int_range_def date_column_def demo_date demo_confidence)
  have fake: "enqueue_all fakeDB [] [demo_record 42 ''09:00:00.000'', demo_record 43 ''09:00:00.300''] [] =
      Some [demo_record 42 ''09:00:00.000'', demo_record 43 ''09:00:00.300'']"
    by (simp add: fakeDB_def)
  have idb: "enqueue_all indexedDB [] [demo_record 42 ''09:00:00.000'', demo_record 43 ''09:00:00.300''] [] =
      Some [(JStr ''09:00:00.000'', demo_record 42 ''09:00:00.000''),
            (JStr ''09:00:00.300'', demo_record 43 ''09:00:00.300'')]"
    by (simp add: indexedDB_def dbAdd_def demo_record_def field_def js_or_def valid_key_def Let_def)
  from offline_round_trip [OF env objs(1), of demo_scanner "[]" "[]"] rows
  have a: "snd (syncOfflineQueue (online (attendance_sync demo_env))
        (fold queueAttendance [demo_queued 42, demo_queued 43]
           (demo_scanner\<lparr>offline_attendance := []\<rparr>), [])) =
      (demo_scanner\<lparr>offline_attendance := []\<rparr>, [demo_row 42, demo_row 43])"
    by simp
  from offline_round_trip [OF env objs(2), of demo_scanner "[]" "[]"] fake idb
  have b: "syncBtn_click fakeDB (online (attendance_sync demo_env))
        ([demo_record 42 ''09:00:00.000'', demo_record 43 ''09:00:00.300''], []) =
      ([], map (sync_values demo_env)
             [demo_record 42 ''09:00:00.000'', demo_record 43 ''09:00:00.300''])"
    and c: "\<exists>rows. syncBtn_click indexedDB (online (attendance_sync demo_env))
          ([(JStr ''09:00:00.000'', demo_record 42 ''09:00:00.000''),
            (JStr ''09:00:00.300'', demo_record 43 ''09:00:00.300'')], []) = ([], rows)
        \<and> length rows = 2"
    by auto
  from queued a fake b idb c show ?thesis by blast
qed

section \<open>The scanner: what one call does\<close>

lemma record_mark_fields:
  "resolve_student (record_mark label t c) l = resolve_student c l"
  "offline_attendance (record_mark label t c) = offline_attendance c"
  "sessionMarked (record_mark label t c) = sessionMarked c"
  "labelToStudentId (record_mark label t c) = labelToStudentId c"
  by (simp_all add: record_mark_def resolve_student_def Let_def)

lemma recentMarks_record_mark:
  "label \<noteq> ''__proto__'' \<Longrightarrow> recentMarks (record_mark label t c) label = Some t"
  by (simp add: record_mark_def)

lemma unresolved_item_eq:
  "\<not> truthy studentId \<Longrightarrow>
   unresolved_item env label studentId distance =
     JObj [(''roll_number'', JStr label), (''student_id'', JNull), (''date'', JStr (iso_date env)),
           (''timestamp'', JStr (iso_stamp env)), (''status'', JStr ''present''),
           (''method'', JStr ''face''),
           (''confidence'', JNum (Fin (js_toFixed3 (js_minus 1 distance)))),
           (''synced'', JBool False)]"
  by (simp add: unresolved_item_def mark_payload_def obj_lit_def js_or_def)

lemma fallback_item_eq:
  "truthy studentId \<Longrightarrow>
   fallback_item env studentId distance =
     JObj [(''student_id'', studentId), (''date'', JStr (iso_date env)),
           (''timestamp'', JStr (iso_stamp env)), (''status'', JStr ''present''),
           (''method'', JStr ''face''),
           (''confidence'', JNum (Fin (js_toFixed3 (js_minus 1 distance)))),
           (''synced'', JBool False)]"
  by (simp add: fallback_item_def mark_payload_def obj_lit_def js_or_def)

text \<open>The whole call is its first part, the fetch, and its second part on the outcome.\<close>

lemma mark_start_resume:
  "markAttendanceForLabel env post label distance (c, s) =
     (case mark_start env label distance c of
        Finished c' \<Rightarrow> (c', s)
      | Awaiting c1 studentId \<Rightarrow>
          (case post (JObj (mark_payload env studentId distance)) s of
             (outcome, s') \<Rightarrow> (mark_resume env studentId distance outcome c1, s')))"
  "markAttendanceForLabel_patched env post label distance (c, s) =
     (case mark_start env label distance c of
        Finished c' \<Rightarrow> (c', s)
      | Awaiting c1 studentId \<Rightarrow>
          (case post (JObj (mark_payload env studentId distance)) s of
             (outcome, s') \<Rightarrow> (mark_resume_patched env studentId distance outcome c1, s')))"
  by (auto simp add: markAttendanceForLabel_def markAttendanceForLabel_patched_def
      mark_start_def record_mark_fields mark_resume_def mark_resume_patched_def Let_def
      split: prod.splits fetch_result.splits)

text \<open>The three ways a call leaves the guard behind.\<close>

lemma mark_suppressed:
  "debounced c label (now env) \<Longrightarrow>
   markAttendanceForLabel env post label distance (c, s) = (c, s) \<and>
   markAttendanceForLabel_patched env post label distance (c, s) = (c, s)"
  by (simp add: markAttendanceForLabel_def markAttendanceForLabel_patched_def)

lemma mark_unresolved:
  assumes "\<not> debounced c label (now env)" "\<not> truthy (resolve_student c label)"
  shows "markAttendanceForLabel env post label distance (c, s) =
           ((record_mark label (now env) c)\<lparr>offline_attendance := offline_attendance c @
                [unresolved_item env label (resolve_student c label) distance]\<rparr>, s)"
    and "markAttendanceForLabel_patched env post label distance (c, s) =
           ((record_mark label (now env) c)\<lparr>offline_attendance := offline_attendance c @
                [unresolved_item env label (resolve_student c label) distance]\<rparr>, s)"
  using assms
  by (simp_all add: markAttendanceForLabel_def markAttendanceForLabel_patched_def Let_def
      queueAttendance_def record_mark_fields)

lemma mark_failed:
  assumes "\<not> debounced c label (now env)" "truthy (resolve_student c label)"
    and "post (JObj (mark_payload env (resolve_student c label) distance)) s = (r, s')"
    and "r = Rejected \<or> (\<exists>resp. r = Resolved resp \<and> \<not> ok resp)"
  shows "markAttendanceForLabel env post label distance (c, s) =
           ((record_mark label (now env) c)\<lparr>offline_attendance := offline_attendance c @
                [fallback_item env (resolve_student c label) distance]\<rparr>, s')"
    and "markAttendanceForLabel_patched env post label distance (c, s) =
           ((record_mark label (now env) c)\<lparr>offline_attendance := offline_attendance c @
                [fallback_item env (resolve_student c label) distance]\<rparr>, s')"
  using assms
  by (auto simp add: markAttendanceForLabel_def markAttendanceForLabel_patched_def Let_def
      queueAttendance_def record_mark_fields)

lemma mark_succeeded:
  assumes "\<not> debounced c label (now env)" "truthy (resolve_student c label)"
    and "post (JObj (mark_payload env (resolve_student c label) distance)) s = (Resolved resp, s')"
    and "ok resp"
  shows "markAttendanceForLabel env post label distance (c, s) =
           (record_mark label (now env) c, s')"
    and "markAttendanceForLabel_patched env post label distance (c, s) =
           ((record_mark label (now env) c)\<lparr>sessionMarked :=
               set_add (js_Number env (resolve_student c label)) (sessionMarked c)\<rparr>, s')"
  using assms
  by (simp_all add: markAttendanceForLabel_def markAttendanceForLabel_patched_def Let_def
      record_mark_fields)

text \<open>
  Whatever the outcome, a call that passes the guard has recorded its time, for every
  label but \<open>__proto__\<close>.
\<close>

lemma mark_records_time:
  assumes "\<not> debounced c label (now env)" "label \<noteq> ''__proto__''"
  shows "recentMarks (fst (markAttendanceForLabel env post label distance (c, s))) label = Some (now env)"
    and "recentMarks (fst (markAttendanceForLabel_patched env post label distance (c, s))) label = Some (now env)"
  using assms
  by (auto simp add: markAttendanceForLabel_def markAttendanceForLabel_patched_def Let_def
      queueAttendance_def recentMarks_record_mark record_mark_fields split: prod.splits fetch_result.splits)

lemma not_ok_409: "\<not> ok already_marked"
  by (simp add: ok_def already_marked_def)

text \<open>
  Claim C3, as stated, fails: a mark request answered with 409 \<open>already_marked\<close> is
  put into the offline queue like any other response that is not ok. Here student 42 is
  already marked for the day, the server answers 409, and the queue of the client,
  empty before the call, is not empty after it.
\<close>

theorem conflict_not_success_counterexample:
  "fst (attendance_mark demo_env (JObj (mark_payload (demo_cenv 1000) (JNum (Fin 42)) (9 / 100)))
         [demo_row 42]) = already_marked
   \<and> code already_marked = 409
   \<and> offline_attendance (fst (markAttendanceForLabel (demo_cenv 1000)
         (online (attendance_mark demo_env)) ''R-042'' (9 / 100) (demo_scanner, [demo_row 42])))
       \<noteq> offline_attendance demo_scanner
   \<and> offline_attendance (fst (markAttendanceForLabel_patched (demo_cenv 1000)
         (online (attendance_mark demo_env)) ''R-042'' (9 / 100) (demo_scanner, [demo_row 42])))
       \<noteq> offline_attendance demo_scanner"
  by (simp add: client_simps demo_simps demo_toFixed3)

text \<open>
  Claim C3, amended. \<open>markAttendanceForLabel\<close> has one test on the response, \<open>resp.ok\<close>.
  Whenever the mark request of a call that passed the guard is answered with a response
  that is not ok (any status outside 200 to 299, 409 \<open>already_marked\<close> among them),
  the record, with \<open>synced: false\<close>, is appended to the offline queue: the queue grows
  by exactly one entry. Both copies of the function do so.
\<close>

theorem conflict_is_queued:
  assumes "\<not> debounced c label (now env)" "truthy (resolve_student c label)"
    and "post (JObj (mark_payload env (resolve_student c label) distance)) s = (Resolved resp, s')"
    and "\<not> ok resp"
  shows "markAttendanceForLabel env post label distance (c, s) =
           ((record_mark label (now env) c)\<lparr>offline_attendance := offline_attendance c @
                [fallback_item env (resolve_student c label) distance]\<rparr>, s')
         \<and> markAttendanceForLabel_patched env post label distance (c, s) =
           ((record_mark label (now env) c)\<lparr>offline_attendance := offline_attendance c @
                [fallback_item env (resolve_student c label) distance]\<rparr>, s')"
  using mark_failed [of c label env post distance s "Resolved resp" s'] assms by simp

theorem conflict_is_queued_witness:
  "\<not> debounced demo_scanner ''R-042'' (now (demo_cenv 1000))
   \<and> truthy (resolve_student demo_scanner ''R-042'')
   \<and> online (attendance_mark demo_env)
        (JObj (mark_payload (demo_cenv 1000) (resolve_student demo_scanner ''R-042'') (9 / 100)))
        [demo_row 42] = (Resolved already_marked, [demo_row 42])
   \<and> \<not> ok already_marked
   \<and> offline_attendance (fst (markAttendanceForLabel (demo_cenv 1000)
        (online (attendance_mark demo_env)) ''R-042'' (9 / 100) (demo_scanner, [demo_row 42]))) =
      [demo_queued 42]"
proof -
  have h: "\<not> debounced demo_scanner ''R-042'' (now (demo_cenv 1000))"
    "truthy (resolve_student demo_scanner ''R-042'')"
    "online (attendance_mark demo_env)
        (JObj (mark_payload (demo_cenv 1000) (resolve_student demo_scanner ''R-042'') (9 / 100)))
        [demo_row 42] = (Resolved already_marked, [demo_row 42])"
    by (simp_all add: client_simps demo_simps)
  have item: "fallback_item (demo_cenv 1000) (resolve_student demo_scanner ''R-042'') (9 / 100) =
      demo_queued 42"
    by (simp add: client_simps demo_queued_def demo_toFixed3)
  from conflict_is_queued [where c = demo_scanner and label = "''R-042''"
      and env = "demo_cenv 1000" and post = "online (attendance_mark demo_env)"
      and distance = "9 / 100" and s = "[demo_row 42]" and resp = already_marked
      and s' = "[demo_row 42]", OF h not_ok_409] item
  have "offline_attendance (fst (markAttendanceForLabel (demo_cenv 1000)
        (online (attendance_mark demo_env)) ''R-042'' (9 / 100) (demo_scanner, [demo_row 42]))) =
      [demo_queued 42]"
    by (simp add: demo_scanner_def)
  with h not_ok_409 show ?thesis by blast
qed

text \<open>
  What becomes of the queued conflict: the next flush posts it to the sync endpoint,
  which inserts it, and the table then holds two rows for student 42 on that day.
\<close>

lemma queued_conflict_flushed:
  "snd (syncOfflineQueue (online (attendance_sync demo_env))
     (markAttendanceForLabel (demo_cenv 1000) (online (attendance_mark demo_env)) ''R-042''
        (9 / 100) (demo_scanner, [demo_row 42]))) =
   (demo_scanner\<lparr>recentMarks := [''R-042'' \<mapsto> 1000]\<rparr>, [demo_row 42, demo_row 42])"
  by (simp add: client_simps demo_simps demo_toFixed3 demo_confidence syncOfflineQueue_def
      attendance_sync_def as_array_def sync_row_def sync_values_def sync_success_def)

lemma mark_emits:
  assumes "\<not> debounced c label (now env)"
  shows "emitted env post label distance (c, s) (markAttendanceForLabel env post label distance (c, s))"
    and "emitted env post label distance (c, s)
           (markAttendanceForLabel_patched env post label distance (c, s))"
  using assms
  by (auto simp add: emitted_def markAttendanceForLabel_def markAttendanceForLabel_patched_def
      Let_def queueAttendance_def record_mark_fields split: prod.splits fetch_result.splits)

lemma second_call:
  assumes "recentMarks c1 label = Some t" "t \<noteq> 0" "now e2 = t + \<delta>" "label \<noteq> ''__proto__''"
  shows "\<delta> < 45 * 1000 \<longrightarrow>
           markAttendanceForLabel e2 post2 label d2 (c1, s1) = (c1, s1) \<and>
           markAttendanceForLabel_patched e2 post2 label d2 (c1, s1) = (c1, s1)"
    and "45 * 1000 \<le> \<delta> \<longrightarrow>
           emitted e2 post2 label d2 (c1, s1) (markAttendanceForLabel e2 post2 label d2 (c1, s1)) \<and>
           recentMarks (fst (markAttendanceForLabel e2 post2 label d2 (c1, s1))) label = Some (t + \<delta>) \<and>
           emitted e2 post2 label d2 (c1, s1) (markAttendanceForLabel_patched e2 post2 label d2 (c1, s1)) \<and>
           recentMarks (fst (markAttendanceForLabel_patched e2 post2 label d2 (c1, s1))) label = Some (t + \<delta>)"
proof -
  have d: "debounced c1 label (now e2) \<longleftrightarrow> \<delta> < 45 * 1000"
    using assms by (simp add: debounced_def)
  show "\<delta> < 45 * 1000 \<longrightarrow>
           markAttendanceForLabel e2 post2 label d2 (c1, s1) = (c1, s1) \<and>
           markAttendanceForLabel_patched e2 post2 label d2 (c1, s1) = (c1, s1)"
    using d mark_suppressed [of c1 label e2 post2 d2 s1] by simp
  show "45 * 1000 \<le> \<delta> \<longrightarrow>
           emitted e2 post2 label d2 (c1, s1) (markAttendanceForLabel e2 post2 label d2 (c1, s1)) \<and>
           recentMarks (fst (markAttendanceForLabel e2 post2 label d2 (c1, s1))) label = Some (t + \<delta>) \<and>
           emitted e2 post2 label d2 (c1, s1) (markAttendanceForLabel_patched e2 post2 label d2 (c1, s1)) \<and>
           recentMarks (fst (markAttendanceForLabel_patched e2 post2 label d2 (c1, s1))) label = Some (t + \<delta>)"
  proof
    assume "45 * 1000 \<le> \<delta>"
    with d have nd: "\<not> debounced c1 label (now e2)" by simp
    from mark_emits [OF nd, where post = post2 and distance = d2 and s = s1]
      mark_records_time [OF nd assms(4), where post = post2 and distance = d2 and s = s1] assms(3)
    show "emitted e2 post2 label d2 (c1, s1) (markAttendanceForLabel e2 post2 label d2 (c1, s1)) \<and>
           recentMarks (fst (markAttendanceForLabel e2 post2 label d2 (c1, s1))) label = Some (t + \<delta>) \<and>
           emitted e2 post2 label d2 (c1, s1) (markAttendanceForLabel_patched e2 post2 label d2 (c1, s1)) \<and>
           recentMarks (fst (markAttendanceForLabel_patched e2 post2 label d2 (c1, s1))) label = Some (t + \<delta>)"
      by simp
  qed
qed

text \<open>
  Claim C5 holds for every label but one. \<open>recentMarks\<close> is a plain object used as a
  map from labels to timestamps, and under the label \<open>__proto__\<close> it keeps nothing:
  the guard never holds such a detection back and the assignment of the timestamp is
  lost. Two detections of the label \<open>__proto__\<close> (the roll of student 44 here) one
  millisecond apart both send their mark request, and no timestamp is recorded for the
  label. Both copies of the function.
\<close>

theorem proto_label_not_debounced:
  "snd (markAttendanceForLabel (demo_cenv 1001) logging ''__proto__'' (9 / 100)
      (markAttendanceForLabel (demo_cenv 1000) logging ''__proto__'' (9 / 100) (demo_scanner, []))) =
     [JObj (mark_payload (demo_cenv 1000) (JNum (Fin 44)) (9 / 100)),
      JObj (mark_payload (demo_cenv 1001) (JNum (Fin 44)) (9 / 100))]
   \<and> snd (markAttendanceForLabel_patched (demo_cenv 1001) logging ''__proto__'' (9 / 100)
      (markAttendanceForLabel_patched (demo_cenv 1000) logging ''__proto__'' (9 / 100)
         (demo_scanner, []))) =
     [JObj (mark_payload (demo_cenv 1000) (JNum (Fin 44)) (9 / 100)),
      JObj (mark_payload (demo_cenv 1001) (JNum (Fin 44)) (9 / 100))]
   \<and> recentMarks (fst (markAttendanceForLabel (demo_cenv 1000) logging ''__proto__'' (9 / 100)
        (demo_scanner, []))) ''__proto__'' = None
   \<and> debounced (fst (markAttendanceForLabel (demo_cenv 1000) logging ''__proto__'' (9 / 100)
        (demo_scanner, []))) ''__proto__'' 1001 = False"
  by (simp add: client_simps)

text \<open>
  For every other label the debounce is as the specification has it. Two detections of
  one label, handled at the clock readings \<open>t\<close> and \<open>t + \<delta>\<close> (\<open>Date.now()\<close>, not zero),
  the first of them not held back by an earlier mark: the first emits and sets the
  timestamp of the label to \<open>t\<close>. For \<open>\<delta>\<close> below 45 seconds the second call changes
  nothing at all, neither on the client nor behind the network, whatever the endpoint is;
  for \<open>\<delta>\<close> of 45 seconds or more the second emits as well and sets the timestamp to
  \<open>t + \<delta>\<close>.
\<close>

lemma debounce_other_labels:
  assumes "label \<noteq> ''__proto__''"
    and "now e1 = t" "t \<noteq> 0" "now e2 = t + \<delta>" "\<not> debounced c label t"
    and "r1 = markAttendanceForLabel e1 post1 label d1 (c, s)"
    and "p1 = markAttendanceForLabel_patched e1 post1 label d1 (c, s)"
  shows "emitted e1 post1 label d1 (c, s) r1 \<and> recentMarks (fst r1) label = Some t \<and>
         (\<delta> < 45 * 1000 \<longrightarrow> markAttendanceForLabel e2 post2 label d2 r1 = r1) \<and>
         (45 * 1000 \<le> \<delta> \<longrightarrow>
            emitted e2 post2 label d2 r1 (markAttendanceForLabel e2 post2 label d2 r1) \<and>
            recentMarks (fst (markAttendanceForLabel e2 post2 label d2 r1)) label = Some (t + \<delta>)) \<and>
         emitted e1 post1 label d1 (c, s) p1 \<and> recentMarks (fst p1) label = Some t \<and>
         (\<delta> < 45 * 1000 \<longrightarrow> markAttendanceForLabel_patched e2 post2 label d2 p1 = p1) \<and>
         (45 * 1000 \<le> \<delta> \<longrightarrow>
            emitted e2 post2 label d2 p1 (markAttendanceForLabel_patched e2 post2 label d2 p1) \<and>
            recentMarks (fst (markAttendanceForLabel_patched e2 post2 label d2 p1)) label = Some (t + \<delta>))"
proof -
  have nd: "\<not> debounced c label (now e1)" using assms(2,5) by simp
  have e1: "emitted e1 post1 label d1 (c, s) r1" "emitted e1 post1 label d1 (c, s) p1"
    using mark_emits [OF nd, where post = post1 and distance = d1 and s = s] assms(6,7) by simp_all
  have t1: "recentMarks (fst r1) label = Some t" "recentMarks (fst p1) label = Some t"
    using mark_records_time [OF nd assms(1), where post = post1 and distance = d1 and s = s]
      assms(2,6,7)
    by simp_all
  obtain c1 s1 where r1: "r1 = (c1, s1)" by (cases r1)
  obtain c2 s2 where p1: "p1 = (c2, s2)" by (cases p1)
  from second_call [of c1 label t e2 \<delta> post2 d2 s1] t1(1) assms(1,3,4) r1
  have a: "(\<delta> < 45 * 1000 \<longrightarrow> markAttendanceForLabel e2 post2 label d2 r1 = r1) \<and>
         (45 * 1000 \<le> \<delta> \<longrightarrow>
            emitted e2 post2 label d2 r1 (markAttendanceForLabel e2 post2 label d2 r1) \<and>
            recentMarks (fst (markAttendanceForLabel e2 post2 label d2 r1)) label = Some (t + \<delta>))"
    by simp
  from second_call [of c2 label t e2 \<delta> post2 d2 s2] t1(2) assms(1,3,4) p1
  have b: "(\<delta> < 45 * 1000 \<longrightarrow> markAttendanceForLabel_patched e2 post2 label d2 p1 = p1) \<and>
         (45 * 1000 \<le> \<delta> \<longrightarrow>
            emitted e2 post2 label d2 p1 (markAttendanceForLabel_patched e2 post2 label d2 p1) \<and>
            recentMarks (fst (markAttendanceForLabel_patched e2 post2 label d2 p1)) label = Some (t + \<delta>))"
    by simp
  from e1 t1 a b show ?thesis by simp
qed

lemma debounce_other_labels_example:
  "snd (markAttendanceForLabel (demo_cenv 1000) logging ''R-042'' (9 / 100) (demo_scanner, [])) =
       [JObj (mark_payload (demo_cenv 1000) (JNum (Fin 42)) (9 / 100))]
   \<and> markAttendanceForLabel (demo_cenv 45999) logging ''R-042'' (9 / 100)
        (markAttendanceForLabel (demo_cenv 1000) logging ''R-042'' (9 / 100) (demo_scanner, [])) =
       markAttendanceForLabel (demo_cenv 1000) logging ''R-042'' (9 / 100) (demo_scanner, [])
   \<and> snd (markAttendanceForLabel (demo_cenv 46000) logging ''R-042'' (9 / 100)
        (markAttendanceForLabel (demo_cenv 1000) logging ''R-042'' (9 / 100) (demo_scanner, []))) =
       [JObj (mark_payload (demo_cenv 1000) (JNum (Fin 42)) (9 / 100)),
        JObj (mark_payload (demo_cenv 46000) (JNum (Fin 42)) (9 / 100))]
   \<and> recentMarks (fst (markAttendanceForLabel (demo_cenv 46000) logging ''R-042'' (9 / 100)
        (markAttendanceForLabel (demo_cenv 1000) logging ''R-042'' (9 / 100) (demo_scanner, []))))
        ''R-042'' = Some 46000"
  by (simp add: client_simps)

text \<open>
  Claim C8. A call that passes the guard for a label without a student id appends
  one record to the offline queue: the label as \<open>roll_number\<close>, \<open>student_id: null\<close>,
  \<open>synced: false\<close>, with the date, timestamp, status, method and confidence of the
  detection. The result is the same for every endpoint and the state behind the network
  is returned as it was: no mark request is sent. Both copies of the function.
\<close>

theorem unresolved_label_queued:
  assumes "\<not> debounced c label (now env)" "\<not> truthy (resolve_student c label)"
    and "item = JObj [(''roll_number'', JStr label), (''student_id'', JNull),
            (''date'', JStr (iso_date env)), (''timestamp'', JStr (iso_stamp env)),
            (''status'', JStr ''present''), (''method'', JStr ''face''),
            (''confidence'', JNum (Fin (js_toFixed3 (js_minus 1 distance)))),
            (''synced'', JBool False)]"
  shows "markAttendanceForLabel env post label distance (c, s) =
           ((record_mark label (now env) c)\<lparr>offline_attendance := offline_attendance c @ [item]\<rparr>, s)
         \<and> markAttendanceForLabel_patched env post label distance (c, s) =
           ((record_mark label (now env) c)\<lparr>offline_attendance := offline_attendance c @ [item]\<rparr>, s)"
  using mark_unresolved [OF assms(1,2), where post = post and distance = distance and s = s]
    unresolved_item_eq [OF assms(2), of env label distance] assms(3)
  by simp

theorem unresolved_label_queued_witness:
  "\<not> debounced demo_scanner ''R-999'' (now (demo_cenv 1000))
   \<and> \<not> truthy (resolve_student demo_scanner ''R-999'')
   \<and> markAttendanceForLabel (demo_cenv 1000) logging ''R-999'' (9 / 100) (demo_scanner, []) =
      (demo_scanner\<lparr>recentMarks := [''R-999'' \<mapsto> 1000],
         offline_attendance := [JObj [(''roll_number'', JStr ''R-999''), (''student_id'', JNull),
            (''date'', JStr ''2024-03-01''), (''timestamp'', JStr ''2024-03-01T09:00:00.000Z''),
            (''status'', JStr ''present''), (''method'', JStr ''face''),
            (''confidence'', JNum (Fin (to_double (91 / 100)))), (''synced'', JBool False)]]\<rparr>, [])"
proof -
  have h: "\<not> debounced demo_scanner ''R-999'' (now (demo_cenv 1000))"
    "\<not> truthy (resolve_student demo_scanner ''R-999'')"
    by (simp_all add: demo_cenv_def demo_scanner_def debounced_def resolve_student_def map_get_def)
  from unresolved_label_queued [OF h refl, where distance = "9 / 100" and post = logging
      and s = "[]"]
  have "markAttendanceForLabel (demo_cenv 1000) logging ''R-999'' (9 / 100) (demo_scanner, []) =
      (demo_scanner\<lparr>recentMarks := [''R-999'' \<mapsto> 1000],
         offline_attendance := [JObj [(''roll_number'', JStr ''R-999''), (''student_id'', JNull),
            (''date'', JStr ''2024-03-01''), (''timestamp'', JStr ''2024-03-01T09:00:00.000Z''),
            (''status'', JStr ''present''), (''method'', JStr ''face''),
            (''confidence'', JNum (Fin (to_double (91 / 100)))), (''synced'', JBool False)]]\<rparr>, [])"
    by (simp add: demo_cenv_def demo_scanner_def demo_toFixed3 record_mark_def)
  with h show ?thesis by blast
qed

text \<open>
  Claim C10 holds for every label but one, by the defect met with the debounce: under
  the label \<open>__proto__\<close> the plain object \<open>recentMarks\<close> keeps no timestamp. The first
  part of a call for that label leaves the state as it was, with the request on its way;
  a second detection one millisecond later, while the first request is still pending,
  sends a second request; and when the first attempt has failed and its record is
  queued, the second detection is tried and queued again.
\<close>

theorem proto_label_retried:
  "mark_start (demo_cenv 1000) ''__proto__'' (9 / 100) demo_scanner =
     Awaiting demo_scanner (JNum (Fin 44))
   \<and> mark_start (demo_cenv 1001) ''__proto__'' (9 / 100) demo_scanner =
     Awaiting demo_scanner (JNum (Fin 44))
   \<and> fst (markAttendanceForLabel (demo_cenv 1000) unreachable ''__proto__'' (9 / 100)
       (demo_scanner, [])) =
     demo_scanner\<lparr>offline_attendance := [demo_queued 44]\<rparr>
   \<and> fst (markAttendanceForLabel (demo_cenv 1001) unreachable ''__proto__'' (9 / 100)
       (markAttendanceForLabel (demo_cenv 1000) unreachable ''__proto__'' (9 / 100)
          (demo_scanner, []))) =
     demo_scanner\<lparr>offline_attendance := [demo_queued 44, demo_queued 44]\<rparr>
   \<and> fst (markAttendanceForLabel_patched (demo_cenv 1001) unreachable ''__proto__'' (9 / 100)
       (markAttendanceForLabel_patched (demo_cenv 1000) unreachable ''__proto__'' (9 / 100)
          (demo_scanner, []))) =
     demo_scanner\<lparr>offline_attendance := [demo_queued 44, demo_queued 44]\<rparr>"
  by (simp add: client_simps mark_start_def demo_queued_def demo_toFixed3)

text \<open>
  For every other label the timestamp is recorded by the first part of the call, before
  the request is sent: once the call has passed the guard, the state in which it awaits
  the response differs from the one before only in the timestamp of the label, and a
  second detection of the label less than 45 seconds later, handled while the request is
  pending, is held back.
\<close>

lemma recorded_before_request:
  assumes "label \<noteq> ''__proto__''" "now e1 = t" "t \<noteq> 0" "\<not> debounced c label t"
  shows "(truthy (resolve_student c label) \<longrightarrow>
            mark_start e1 label d1 c =
              Awaiting (c\<lparr>recentMarks := (recentMarks c)(label \<mapsto> t)\<rparr>) (resolve_student c label)) \<and>
         (\<not> truthy (resolve_student c label) \<longrightarrow>
            mark_start e1 label d1 c =
              Finished (c\<lparr>recentMarks := (recentMarks c)(label \<mapsto> t),
                offline_attendance := offline_attendance c @
                  [unresolved_item e1 label (resolve_student c label) d1]\<rparr>)) \<and>
         (now e2 - t < 45 * 1000 \<longrightarrow>
            mark_start e2 label d2 (c\<lparr>recentMarks := (recentMarks c)(label \<mapsto> t)\<rparr>) =
              Finished (c\<lparr>recentMarks := (recentMarks c)(label \<mapsto> t)\<rparr>))"
  using assms
  by (simp add: mark_start_def Let_def debounced_def record_mark_def queueAttendance_def
      resolve_student_def)

text \<open>
  And it stays recorded whatever the attempt comes to. When the attempt failed (the
  label has no student id, the request could not be sent, or the response was not ok),
  the record is in the offline queue, and a second detection of the label less than 45
  seconds after the first changes nothing and sends nothing, whatever the endpoint is:
  the failed mark is not tried again through detection inside the window.
\<close>

lemma cooldown_other_labels:
  assumes "label \<noteq> ''__proto__''"
    and "now e1 = t" "t \<noteq> 0" "\<not> debounced c label t" "now e2 - t < 45 * 1000"
    and "r1 = markAttendanceForLabel e1 post1 label d1 (c, s)"
    and "p1 = markAttendanceForLabel_patched e1 post1 label d1 (c, s)"
    and "sent = fst (post1 (JObj (mark_payload e1 (resolve_student c label) d1)) s)"
  shows "recentMarks (fst r1) label = Some t \<and> recentMarks (fst p1) label = Some t \<and>
         markAttendanceForLabel e2 post2 label d2 r1 = r1 \<and>
         markAttendanceForLabel_patched e2 post2 label d2 p1 = p1 \<and>
         (\<not> truthy (resolve_student c label) \<longrightarrow>
            fst r1 = c\<lparr>recentMarks := (recentMarks c)(label \<mapsto> t),
                        offline_attendance := offline_attendance c @
                          [unresolved_item e1 label (resolve_student c label) d1]\<rparr> \<and>
            fst p1 = fst r1) \<and>
         (truthy (resolve_student c label) \<and>
          (sent = Rejected \<or> (\<exists>resp. sent = Resolved resp \<and> \<not> ok resp)) \<longrightarrow>
            fst r1 = c\<lparr>recentMarks := (recentMarks c)(label \<mapsto> t),
                        offline_attendance := offline_attendance c @
                          [fallback_item e1 (resolve_student c label) d1]\<rparr> \<and>
            fst p1 = fst r1)"
proof -
  have nd: "\<not> debounced c label (now e1)" using assms(2,4) by simp
  have rm: "record_mark label (now e1) c = c\<lparr>recentMarks := (recentMarks c)(label \<mapsto> t)\<rparr>"
    using assms(1,2) by (simp add: record_mark_def)
  have t1: "recentMarks (fst r1) label = Some t" "recentMarks (fst p1) label = Some t"
    using mark_records_time [OF nd assms(1), where post = post1 and distance = d1 and s = s]
      assms(2,6,7)
    by simp_all
  obtain c1 s1 where r1: "r1 = (c1, s1)" by (cases r1)
  obtain c2 s2 where p1: "p1 = (c2, s2)" by (cases p1)
  have "debounced c1 label (now e2)" "debounced c2 label (now e2)"
    using t1 r1 p1 assms(1,3,5) by (simp_all add: debounced_def)
  then have again: "markAttendanceForLabel e2 post2 label d2 r1 = r1"
    "markAttendanceForLabel_patched e2 post2 label d2 p1 = p1"
    using mark_suppressed [of c1 label e2 post2 d2 s1] mark_suppressed [of c2 label e2 post2 d2 s2]
      r1 p1 by simp_all
  have unres: "\<not> truthy (resolve_student c label) \<longrightarrow>
            fst r1 = c\<lparr>recentMarks := (recentMarks c)(label \<mapsto> t),
                        offline_attendance := offline_attendance c @
                          [unresolved_item e1 label (resolve_student c label) d1]\<rparr> \<and>
            fst p1 = fst r1"
    using mark_unresolved [OF nd, where post = post1 and distance = d1 and s = s] assms(6,7) rm
    by simp
  have failed: "truthy (resolve_student c label) \<and>
          (sent = Rejected \<or> (\<exists>resp. sent = Resolved resp \<and> \<not> ok resp)) \<longrightarrow>
            fst r1 = c\<lparr>recentMarks := (recentMarks c)(label \<mapsto> t),
                        offline_attendance := offline_attendance c @
                          [fallback_item e1 (resolve_student c label) d1]\<rparr> \<and>
            fst p1 = fst r1"
  proof
    assume a: "truthy (resolve_student c label) \<and>
          (sent = Rejected \<or> (\<exists>resp. sent = Resolved resp \<and> \<not> ok resp))"
    obtain s' where post: "post1 (JObj (mark_payload e1 (resolve_student c label) d1)) s = (sent, s')"
      using assms(8) by (cases "post1 (JObj (mark_payload e1 (resolve_student c label) d1)) s") simp
    from mark_failed [of c label e1 post1 d1 s sent s'] nd a post assms(6,7) rm
    show "fst r1 = c\<lparr>recentMarks := (recentMarks c)(label \<mapsto> t),
                        offline_attendance := offline_attendance c @
                          [fallback_item e1 (resolve_student c label) d1]\<rparr> \<and>
            fst p1 = fst r1"
      by simp
  qed
  from t1 again unres failed show ?thesis by simp
qed

lemma cooldown_other_labels_example:
  "markAttendanceForLabel (demo_cenv 1000) logging ''R-042'' (9 / 100) (demo_scanner, []) =
      (demo_scanner\<lparr>recentMarks := [''R-042'' \<mapsto> 1000],
         offline_attendance := [demo_queued 42]\<rparr>,
       [JObj (mark_payload (demo_cenv 1000) (JNum (Fin 42)) (9 / 100))])
   \<and> markAttendanceForLabel (demo_cenv 30000) logging ''R-042'' (9 / 100)
        (markAttendanceForLabel (demo_cenv 1000) logging ''R-042'' (9 / 100) (demo_scanner, [])) =
      (demo_scanner\<lparr>recentMarks := [''R-042'' \<mapsto> 1000],
         offline_attendance := [demo_queued 42]\<rparr>,
       [JObj (mark_payload (demo_cenv 1000) (JNum (Fin 42)) (9 / 100))])"
  by (simp add: client_simps demo_queued_def demo_toFixed3)

section \<open>Confidence\<close>

lemma to_double_close:
  assumes "0 \<le> x" "x \<le> c"
  shows "\<bar>to_double x - x\<bar> \<le> c / 2 ^ 53"
proof -
  have "x / 2 ^ 53 \<le> c / 2 ^ 53" using assms(2) by (simp add: divide_right_mono)
  with to_double_bounds(2,3) [OF assms(1)] show ?thesis by (simp only: abs_le_iff) linarith
qed

lemma to_double_one: "to_double 1 = 1"
  by code_simp

lemma to_double_hundred: "to_double 100 = 100"
  by code_simp

text \<open>
  The model on the two inputs where rounding the exact difference and rounding the
  double part ways: the doubles nearest to 0.0005 and to 0.00005 are sent as 1 and as 100.
\<close>

lemma confidence_on_ties:
  "js_toFixed3 (js_minus 1 (to_double (1 / 2000))) = 1"
  "js_divide (js_Math_round (js_times (js_minus 1 (to_double (1 / 20000))) 10000)) 100 = 100"
  by code_simp+

lemma demo_percent:
  "js_divide (js_Math_round (js_times (js_minus 1 (9 / 100)) 10000)) 100 = 91"
  "js_divide (js_Math_round (js_times (js_minus 1 (1 / 4)) 10000)) 100 = 75"
  by code_simp+

lemma demo_sixteenth:
  "js_toFixed3 (js_minus 1 (1 / 16)) = to_double (469 / 500)"
  "to_double (469 / 500) \<noteq> 1 - 1 / 16"
  by code_simp+

text \<open>The double \<open>1 - d\<close> for a distance in [0,1].\<close>

lemma js_minus_unit:
  assumes "0 \<le> d" "d \<le> 1"
  shows "0 \<le> js_minus 1 d" "\<bar>js_minus 1 d - (1 - d)\<bar> \<le> 1 / 2 ^ 53"
proof -
  have x: "0 \<le> 1 - d" "1 - d \<le> 1" using assms by simp_all
  show "0 \<le> js_minus 1 d" unfolding js_minus_def by (rule to_double_bounds(1) [OF x(1)])
  show "\<bar>js_minus 1 d - (1 - d)\<bar> \<le> 1 / 2 ^ 53"
    unfolding js_minus_def by (rule to_double_close [OF x])
qed

text \<open>
  \<open>+(x).toFixed(3)\<close> of a double \<open>x\<close> that lies within \<open>2^-53\<close> of a number of [0,1]:
  the double nearest to \<open>n / 1000\<close>, where \<open>n\<close> is the integer nearest to \<open>1000 x\<close>
  (the larger one of two).
\<close>

lemma toFixed3_value:
  assumes "0 \<le> x" "\<bar>x - x0\<bar> \<le> 1 / 2 ^ 53" "0 \<le> x0" "x0 \<le> 1"
  shows "\<exists>n::int. 0 \<le> n \<and> n \<le> 1000 \<and>
           of_int n - 1 / 2 \<le> x * 1000 \<and> x * 1000 < of_int n + 1 / 2 \<and>
           js_toFixed3 x = to_double (of_int n / 1000) \<and>
           0 \<le> to_double (of_int n / 1000) \<and> to_double (of_int n / 1000) \<le> 1 \<and>
           \<bar>to_double (of_int n / 1000) - x0\<bar> \<le> 1 / 2000 + 1 / 2 ^ 52"
proof -
  define e :: rat where "e = 1 / 2 ^ 53"
  have e: "0 < e" "e < 1 / 1000000" "1 / 2 ^ 52 = 2 * e" by (simp_all add: e_def)
  have xe: "\<bar>x - x0\<bar> \<le> e" using assms(2) by (simp only: e_def)
  define n where "n = \<lfloor>x * 1000 + 1 / 2\<rfloor>"
  have eq: "js_toFixed3 x = to_double (of_int n / 1000)"
    using assms(1) by (simp add: js_toFixed3_def toFixed3_def n_def)
  have lo: "of_int n \<le> x * 1000 + 1 / 2" and hi: "x * 1000 + 1 / 2 < of_int n + 1"
    unfolding n_def by linarith+
  have n0: "0 \<le> n" unfolding n_def using assms(1) by simp
  then have n0': "(0::rat) \<le> of_int n" by simp
  have "x * 1000 + 1 / 2 < 1001" using xe assms(4) e by linarith
  then have "n < 1001" unfolding n_def by (simp add: floor_less_iff)
  then have n1: "n \<le> 1000" by simp
  then have n1': "(of_int n :: rat) \<le> 1000" by (metis of_int_le_iff of_int_numeral)
  define q where "q = to_double (of_int n / 1000)"
  have q0: "0 \<le> q" unfolding q_def by (rule to_double_bounds(1)) (use n0' in simp)
  have "\<bar>q - of_int n / 1000\<bar> \<le> 1 / 2 ^ 53"
    unfolding q_def by (rule to_double_close) (use n0' n1' in simp_all)
  then have qe: "\<bar>q - of_int n / 1000\<bar> \<le> e" by (simp only: e_def)
  have q1: "q \<le> 1"
  proof (cases "n = 1000")
    case True
    then show ?thesis by (simp add: q_def to_double_one)
  next
    case False
    with n1 have "n \<le> 999" by simp
    then have "(of_int n :: rat) \<le> 999" by (metis of_int_le_iff of_int_numeral)
    with qe e show ?thesis by linarith
  qed
  have near: "\<bar>q - x0\<bar> \<le> 1 / 2000 + 1 / 2 ^ 52"
    using qe xe lo hi unfolding e(3) by linarith
  have a: "of_int n - 1 / 2 \<le> x * 1000" "x * 1000 < of_int n + 1 / 2"
    using lo hi by linarith+
  show ?thesis
    using n0 n1 a eq q0 q1 near unfolding q_def by blast
qed

text \<open>
  \<open>Math.round(x * 10000) / 100\<close> of such a double: the double nearest to \<open>m / 100\<close>,
  where \<open>m\<close> is the integer nearest to the double \<open>x * 10000\<close> (the larger one of two).
\<close>

lemma percent_value:
  assumes "0 \<le> x" "\<bar>x - x0\<bar> \<le> 1 / 2 ^ 53" "0 \<le> x0" "x0 \<le> 1"
  shows "\<exists>m::int. 0 \<le> m \<and> m \<le> 10000 \<and>
           of_int m - 1 / 2 \<le> js_times x 10000 \<and> js_times x 10000 < of_int m + 1 / 2 \<and>
           js_divide (js_Math_round (js_times x 10000)) 100 = to_double (of_int m / 100) \<and>
           0 \<le> to_double (of_int m / 100) \<and> to_double (of_int m / 100) \<le> 100 \<and>
           \<bar>to_double (of_int m / 100) - 100 * x0\<bar> \<le> 1 / 200 + 1 / 2 ^ 44"
proof -
  define e :: rat where "e = 1 / 2 ^ 53"
  have e: "0 < e" "e < 1 / 1000000" "1 / 2 ^ 44 = 512 * e" by (simp_all add: e_def)
  have xe: "\<bar>x - x0\<bar> \<le> e" using assms(2) by (simp only: e_def)
  define y where "y = js_times x 10000"
  have y0: "0 \<le> y"
    unfolding y_def js_times_def by (rule to_double_bounds(1)) (use assms(1) in simp)
  have "x * 10000 \<le> 10001" using xe assms(4) e by linarith
  then have "\<bar>y - x * 10000\<bar> \<le> 10001 / 2 ^ 53"
    unfolding y_def js_times_def by (intro to_double_close) (use assms(1) in simp_all)
  then have ye: "\<bar>y - x * 10000\<bar> \<le> 10001 * e" by (simp only: e_def times_divide_eq_right mult_1_right)
  define m where "m = \<lfloor>y + 1 / 2\<rfloor>"
  have eq: "js_divide (js_Math_round y) 100 = to_double (of_int m / 100)"
    by (simp add: js_divide_def js_Math_round_def m_def)
  have lo: "of_int m \<le> y + 1 / 2" and hi: "y + 1 / 2 < of_int m + 1"
    unfolding m_def by linarith+
  have m0: "0 \<le> m" unfolding m_def using y0 by simp
  then have m0': "(0::rat) \<le> of_int m" by simp
  have "y + 1 / 2 < 10001" using ye xe assms(4) e by linarith
  then have "m < 10001" unfolding m_def by (simp add: floor_less_iff)
  then have m1: "m \<le> 10000" by simp
  then have m1': "(of_int m :: rat) \<le> 10000" by (metis of_int_le_iff of_int_numeral)
  define p where "p = to_double (of_int m / 100)"
  have p0: "0 \<le> p" unfolding p_def by (rule to_double_bounds(1)) (use m0' in simp)
  have "\<bar>p - of_int m / 100\<bar> \<le> 100 / 2 ^ 53"
    unfolding p_def by (rule to_double_close) (use m0' m1' in simp_all)
  then have pe: "\<bar>p - of_int m / 100\<bar> \<le> 100 * e"
    by (simp only: e_def times_divide_eq_right mult_1_right)
  have p1: "p \<le> 100"
  proof (cases "m = 10000")
    case True
    then show ?thesis by (simp add: p_def to_double_hundred)
  next
    case False
    with m1 have "m \<le> 9999" by simp
    then have "(of_int m :: rat) \<le> 9999" by (metis of_int_le_iff of_int_numeral)
    with pe e show ?thesis by linarith
  qed
  have near: "\<bar>p - 100 * x0\<bar> \<le> 1 / 200 + 1 / 2 ^ 44"
    using pe ye xe lo hi e(1) unfolding e(3) by linarith
  have a: "of_int m - 1 / 2 \<le> y" "y < of_int m + 1 / 2"
    using lo hi by linarith+
  show ?thesis
    using m0 m1 a eq p0 p1 near unfolding p_def y_def by blast
qed

text \<open>
  Claim C9, as stated, fails. The batching scanner stores a percentage: at distance
  1/4 its record carries confidence 75, not 0.75, outside [0,1].
  \<open>markAttendanceForLabel\<close> rounds to three decimals: at distance 1/16 its payload
  carries the double nearest to 0.938, not 0.9375.
\<close>

theorem confidence_counterexample:
  "field (face_record (demo_cenv 1000) ''42'' (1 / 4)) ''confidence'' = JNum (Fin 75)
   \<and> (75::rat) \<noteq> 1 - 1 / 4 \<and> \<not> (75::rat) \<le> 1
   \<and> field (JObj (mark_payload (demo_cenv 1000) (JNum (Fin 42)) (1 / 16))) ''confidence'' =
       JNum (Fin (to_double (469 / 500)))
   \<and> to_double (469 / 500) \<noteq> 1 - 1 / 16"
  using demo_percent(2) demo_sixteenth
  by (simp add: face_record_def mark_payload_def field_def)

text \<open>
  Claim C9, amended. For a match distance \<open>d\<close> in [0,1], all arithmetic being that
  of doubles. The confidence sent by \<open>markAttendanceForLabel\<close> is the double \<open>1 - d\<close>
  rounded to three decimals: the double nearest to \<open>n / 1000\<close>, where \<open>n\<close>, between 0
  and 1000, is the integer nearest to 1000 times the double \<open>1 - d\<close> (the larger one
  of two); it lies in [0,1], within \<open>0.0005 + 2^-52\<close> of the exact \<open>1 - d\<close>. The
  confidence of a record of the batching scanner is a percentage rounded to two
  decimals: the double nearest to \<open>m / 100\<close>, where \<open>m\<close>, between 0 and 10000, is the
  integer nearest to the double \<open>(1 - d) * 10000\<close> (the larger one of two); it lies in
  [0,100], within \<open>0.005 + 2^-44\<close> of \<open>100 (1 - d)\<close>. The records of manual marking
  carry \<open>confidence: null\<close>.
\<close>

theorem confidence_values:
  assumes "0 \<le> d" "d \<le> 1"
  shows "(\<exists>n::int. 0 \<le> n \<and> n \<le> 1000 \<and>
            of_int n - 1 / 2 \<le> js_minus 1 d * 1000 \<and> js_minus 1 d * 1000 < of_int n + 1 / 2 \<and>
            field (JObj (mark_payload env studentId d)) ''confidence'' =
              JNum (Fin (to_double (of_int n / 1000))) \<and>
            0 \<le> to_double (of_int n / 1000) \<and> to_double (of_int n / 1000) \<le> 1 \<and>
            \<bar>to_double (of_int n / 1000) - (1 - d)\<bar> \<le> 1 / 2000 + 1 / 2 ^ 52) \<and>
         (\<exists>m::int. 0 \<le> m \<and> m \<le> 10000 \<and>
            of_int m - 1 / 2 \<le> js_times (js_minus 1 d) 10000 \<and>
            js_times (js_minus 1 d) 10000 < of_int m + 1 / 2 \<and>
            field (face_record env label d) ''confidence'' =
              JNum (Fin (to_double (of_int m / 100))) \<and>
            0 \<le> to_double (of_int m / 100) \<and> to_double (of_int m / 100) \<le> 100 \<and>
            \<bar>to_double (of_int m / 100) - 100 * (1 - d)\<bar> \<le> 1 / 200 + 1 / 2 ^ 44) \<and>
         (\<forall>r \<in> set (manual_records env ids). field r ''confidence'' = JNull)"
proof (intro conjI)
  have x: "0 \<le> 1 - d" "1 - d \<le> 1" using assms by simp_all
  note m = js_minus_unit [OF assms]
  have f1: "field (JObj (mark_payload env studentId d)) ''confidence'' =
      JNum (Fin (js_toFixed3 (js_minus 1 d)))"
    by (simp add: field_def mark_payload_def)
  from toFixed3_value [OF m x]
  show "\<exists>n::int. 0 \<le> n \<and> n \<le> 1000 \<and>
            of_int n - 1 / 2 \<le> js_minus 1 d * 1000 \<and> js_minus 1 d * 1000 < of_int n + 1 / 2 \<and>
            field (JObj (mark_payload env studentId d)) ''confidence'' =
              JNum (Fin (to_double (of_int n / 1000))) \<and>
            0 \<le> to_double (of_int n / 1000) \<and> to_double (of_int n / 1000) \<le> 1 \<and>
            \<bar>to_double (of_int n / 1000) - (1 - d)\<bar> \<le> 1 / 2000 + 1 / 2 ^ 52"
    unfolding f1 by blast
  have f2: "field (face_record env label d) ''confidence'' =
      JNum (Fin (js_divide (js_Math_round (js_times (js_minus 1 d) 10000)) 100))"
    by (simp add: field_def face_record_def)
  from percent_value [OF m x]
  show "\<exists>m::int. 0 \<le> m \<and> m \<le> 10000 \<and>
            of_int m - 1 / 2 \<le> js_times (js_minus 1 d) 10000 \<and>
            js_times (js_minus 1 d) 10000 < of_int m + 1 / 2 \<and>
            field (face_record env label d) ''confidence'' =
              JNum (Fin (to_double (of_int m / 100))) \<and>
            0 \<le> to_double (of_int m / 100) \<and> to_double (of_int m / 100) \<le> 100 \<and>
            \<bar>to_double (of_int m / 100) - 100 * (1 - d)\<bar> \<le> 1 / 200 + 1 / 2 ^ 44"
    unfolding f2 by blast
  show "\<forall>r \<in> set (manual_records env ids). field r ''confidence'' = JNull"
    by (auto simp: manual_records_def field_def)
qed

theorem confidence_values_witness:
  "(0::rat) \<le> 9 / 100 \<and> (9 / 100 :: rat) \<le> 1
   \<and> field (JObj (mark_payload (demo_cenv 1000) (JNum (Fin 42)) (9 / 100))) ''confidence'' =
       JNum (Fin (to_double (91 / 100)))
   \<and> field (face_record (demo_cenv 1000) ''42'' (9 / 100)) ''confidence'' = JNum (Fin 91)
   \<and> map (\<lambda>r. field r ''confidence'') (manual_records (demo_cenv 1000) [Fin 42, Fin 43]) =
       [JNull, JNull]"
  using confidence_values [where d = "9 / 100" and env = "demo_cenv 1000"
      and studentId = "JNum (Fin 42)" and label = "''42''" and ids = "[Fin 42, Fin 43]"]
  by (simp add: mark_payload_def face_record_def manual_records_def field_def demo_toFixed3
      demo_percent)

end
